theory Spec2Isabelle
  imports Complex_Main
begin

section \<open>Python values of verify_example.py\<close>

text \<open>
  The script works on values decoded from JSON: the analysis document, the payloads of
  the hosting service, the fixture \<open>SAMPLE_ANALYSIS\<close>. Python's \<open>None\<close> is \<open>JNull\<close>.
  A Python \<open>int\<close> is unbounded (\<open>int\<close>); a finite \<open>float\<close> is given by its exact value,
  a rational (NaN and the infinities, which \<open>json.loads\<close> reads from non-standard
  literals only, are left out). A \<open>str\<close> is the list of its UTF-8 bytes; a \<open>dict\<close> is an
  association list in insertion order, looked up by key.
\<close>

datatype json =
    JNull
  | JBool bool
  | JInt int
  | JFloat rat
  | JStr string
  | JList "json list"
  | JObj "(string \<times> json) list"

text \<open>The exceptions the modelled code can raise.\<close>

datatype pyerror = AttributeError | TypeError | KeyError | ValueError

text \<open>
  The lines written to the error channel, by their content (the f-string formatting of a
  value never raises and is not modelled). Lines on standard output (progress, banner)
  are not modelled.
\<close>

datatype hkey = HNone | HNum rat | HStr string

datatype diag =
    RequestsUnavailable
  | ApiError int string
  | ApiException
  | ParseError string
  | InvalidShaFormat json
  | CommitNotFound string
  | AuthorMismatch json json
  | InvalidDateFormat json
  | MissingParameter string
  | MissingField string string
  | ValueMismatch string
  | NoChange string
  | NotInRange string json
  | UnknownMode string
  | IssueListNotList
  | IssueListEmpty
  | InvalidIssueNumber json
  | IssueNotFound json
  | IssueMissingKeywords json
  | MissingIssues "hkey set"
  | ExtraIssues "hkey set"
  | NoTokenWarning
  | RequestsNotInstalled
  | AnalysisNotFound

text \<open>
  A computation writes diagnostics and then either raises or returns: the log comes
  first, \<open>Inl\<close> is the exception that escapes.
\<close>

type_synonym 'a io = "diag list \<times> (pyerror + 'a)"

definition ret :: "'a \<Rightarrow> 'a io" where
  "ret x = ([], Inr x)"

definition raise :: "pyerror \<Rightarrow> 'a io" where
  "raise e = ([], Inl e)"

definition print_err :: "diag \<Rightarrow> 'a \<Rightarrow> 'a io" where
  \<comment> \<open>\<open>print(..., file=sys.stderr); return x\<close>\<close>
  "print_err d x = ([d], Inr x)"

definition io_bind :: "'a io \<Rightarrow> ('a \<Rightarrow> 'b io) \<Rightarrow> 'b io" where
  "io_bind m f =
     (case m of
        (lg, Inl e) \<Rightarrow> (lg, Inl e)
      | (lg, Inr x) \<Rightarrow> (case f x of (lg', r) \<Rightarrow> (lg @ lg', r)))"

definition lift :: "pyerror + 'a \<Rightarrow> 'a io" where
  "lift r = ([], r)"

subsection \<open>Strings\<close>

definition startswith :: "string \<Rightarrow> string \<Rightarrow> bool" where
  \<comment> \<open>\<open>s.startswith(p)\<close>\<close>
  "startswith s p = (take (length p) s = p)"

fun str_in :: "string \<Rightarrow> string \<Rightarrow> bool" where
  \<comment> \<open>\<open>p in s\<close> for two strings: \<open>p\<close> occurs in \<open>s\<close>\<close>
  "str_in p [] = (p = [])"
| "str_in p (c # s) = (startswith (c # s) p \<or> str_in p s)"

definition lower_char :: "char \<Rightarrow> char" where
  "lower_char c =
     (case map_of (zip ''ABCDEFGHIJKLMNOPQRSTUVWXYZ'' ''abcdefghijklmnopqrstuvwxyz'') c of
        Some l \<Rightarrow> l
      | None \<Rightarrow> c)"

definition lower :: "string \<Rightarrow> string" where
  \<comment> \<open>\<open>s.lower()\<close> on the ASCII letters; bytes of other characters are kept. This is
      \<open>str.lower\<close> on every string whose cased characters are ASCII, as are the keywords
      and the fixture (CJK characters have no case).\<close>
  "lower s = map lower_char s"

definition is_digit :: "char \<Rightarrow> bool" where
  "is_digit c = (c \<in> set ''0123456789'')"

definition is_hex :: "char \<Rightarrow> bool" where
  \<comment> \<open>\<open>[a-f0-9]\<close> under \<open>re.IGNORECASE\<close>: no character outside ASCII folds to one of these\<close>
  "is_hex c = (c \<in> set ''0123456789abcdefABCDEF'')"

definition newline :: char where
  "newline = CHR 0x0A"

definition at_end :: "string \<Rightarrow> bool" where
  \<comment> \<open>the anchor \<open>$\<close> without \<open>re.MULTILINE\<close>: at the end of the string, or just before a
      newline that is its last character\<close>
  "at_end rest = (rest = [] \<or> rest = [newline])"

definition sha_re_match :: "string \<Rightarrow> bool" where
  \<comment> \<open>\<open>re.match(r"^[a-f0-9]{40}$", s, re.IGNORECASE)\<close> is not \<open>None\<close>\<close>
  "sha_re_match s =
     (length (take 40 s) = 40 \<and> list_all is_hex (take 40 s) \<and> at_end (drop 40 s))"

definition date_re_match :: "string \<Rightarrow> bool" where
  \<comment> \<open>\<open>re.match(r"^\d{4}-\d{2}-\d{2}$", s)\<close> is not \<open>None\<close>, with \<open>\d\<close> on the ASCII digits
      (for a \<open>str\<close> pattern Python also takes the decimal digits of other scripts)\<close>
  "date_re_match s =
     (length (take 10 s) = 10
      \<and> list_all is_digit (take 4 s)
      \<and> s ! 4 = CHR ''-''
      \<and> list_all is_digit (take 2 (drop 5 s))
      \<and> s ! 7 = CHR ''-''
      \<and> list_all is_digit (take 2 (drop 8 s))
      \<and> at_end (drop 10 s))"

function show_nat :: "nat \<Rightarrow> string" where
  \<comment> \<open>\<open>str(n)\<close> for \<open>n \<ge> 0\<close>\<close>
  "show_nat n =
     (if n < 10 then [''0123456789'' ! n]
      else show_nat (n div 10) @ [''0123456789'' ! (n mod 10)])"
  by pat_completeness auto
termination
  by (relation "measure (\<lambda>n. n)") auto

declare show_nat.simps [simp del]

definition show_int :: "int \<Rightarrow> string" where
  "show_int i = (if i < 0 then CHR ''-'' # show_nat (nat (- i)) else show_nat (nat i))"

definition is_space :: "char \<Rightarrow> bool" where
  \<comment> \<open>the ASCII characters \<open>int()\<close> strips\<close>
  "is_space c =
     (c \<in> set [CHR 0x09, CHR 0x0A, CHR 0x0B, CHR 0x0C, CHR 0x0D, CHR 0x20])"

definition digit_val :: "char \<Rightarrow> nat" where
  "digit_val c =
     (case map_of (zip ''0123456789'' [0, 1, 2, 3, 4, 5, 6, 7, 8, 9]) c of
        Some d \<Rightarrow> d
      | None \<Rightarrow> 0)"

fun parse_digits :: "string \<Rightarrow> nat \<Rightarrow> nat option" where
  \<comment> \<open>digits, with single underscores between digits\<close>
  "parse_digits [] acc = Some acc"
| "parse_digits (c # cs) acc =
     (if is_digit c then parse_digits cs (10 * acc + digit_val c)
      else if c = CHR ''_'' \<and> cs \<noteq> [] \<and> is_digit (hd cs) then parse_digits cs acc
      else None)"

definition strip :: "string \<Rightarrow> string" where
  "strip s = rev (dropWhile is_space (rev (dropWhile is_space s)))"

definition py_int :: "string \<Rightarrow> int option" where
  \<comment> \<open>\<open>int(s)\<close> on ASCII text, \<open>None\<close> for \<open>ValueError\<close>: surrounding whitespace, a sign,
      then digits\<close>
  "py_int s =
     (case strip s of
        [] \<Rightarrow> None
      | c # cs \<Rightarrow>
          (let neg = (c = CHR ''-'');
               ds = (if c = CHR ''-'' \<or> c = CHR ''+'' then cs else c # cs)
           in case ds of
                [] \<Rightarrow> None
              | d # _ \<Rightarrow>
                  if is_digit d
                  then map_option (\<lambda>n. if neg then - int n else int n) (parse_digits ds 0)
                  else None))"

definition last_segment :: "string \<Rightarrow> string" where
  \<comment> \<open>\<open>s.split("/")[-1]\<close>: what follows the last slash\<close>
  "last_segment s = rev (takeWhile (\<lambda>c. c \<noteq> CHR ''/'') (rev s))"

subsection \<open>Operations on values\<close>

fun truthy :: "json \<Rightarrow> bool" where
  \<comment> \<open>\<open>bool(x)\<close>, so that \<open>not x\<close> is \<open>\<not> truthy x\<close>\<close>
  "truthy JNull = False"
| "truthy (JBool b) = b"
| "truthy (JInt i) = (i \<noteq> 0)"
| "truthy (JFloat r) = (r \<noteq> 0)"
| "truthy (JStr s) = (s \<noteq> [])"
| "truthy (JList xs) = (xs \<noteq> [])"
| "truthy (JObj m) = (m \<noteq> [])"

fun num_val :: "json \<Rightarrow> rat option" where
  \<comment> \<open>the number a \<open>bool\<close>, \<open>int\<close> or \<open>float\<close> stands for in a comparison\<close>
  "num_val (JBool b) = Some (if b then 1 else 0)"
| "num_val (JInt i) = Some (of_int i)"
| "num_val (JFloat r) = Some r"
| "num_val _ = None"

fun py_eq :: "json \<Rightarrow> json \<Rightarrow> bool"
  and py_eq_list :: "json list \<Rightarrow> json list \<Rightarrow> bool"
  and py_eq_items :: "(string \<times> json) list \<Rightarrow> (string \<times> json) list \<Rightarrow> bool" where
  \<comment> \<open>\<open>x == y\<close>: numbers by value across \<open>bool\<close>, \<open>int\<close> and \<open>float\<close>, lists element by
      element, dicts key by key\<close>
  "py_eq JNull y = (y = JNull)"
| "py_eq (JBool b) y = (num_val y = Some (if b then 1 else 0))"
| "py_eq (JInt i) y = (num_val y = Some (of_int i))"
| "py_eq (JFloat r) y = (num_val y = Some r)"
| "py_eq (JStr s) y = (y = JStr s)"
| "py_eq (JList xs) y = (case y of JList ys \<Rightarrow> py_eq_list xs ys | _ \<Rightarrow> False)"
| "py_eq (JObj m) y =
     (case y of JObj m' \<Rightarrow> length m = length m' \<and> py_eq_items m m' | _ \<Rightarrow> False)"
| "py_eq_list [] ys = (ys = [])"
| "py_eq_list (x # xs) ys =
     (case ys of [] \<Rightarrow> False | y # ys' \<Rightarrow> py_eq x y \<and> py_eq_list xs ys')"
| "py_eq_items [] m' = True"
| "py_eq_items ((k, v) # m) m' =
     (case map_of m' k of None \<Rightarrow> False | Some v' \<Rightarrow> py_eq v v' \<and> py_eq_items m m')"

fun py_get :: "json \<Rightarrow> string \<Rightarrow> json \<Rightarrow> pyerror + json" where
  \<comment> \<open>\<open>x.get(k, d)\<close>: only a dict has the method\<close>
  "py_get (JObj m) k d = Inr (case map_of m k of None \<Rightarrow> d | Some v \<Rightarrow> v)"
| "py_get _ k d = Inl AttributeError"

fun py_in :: "string \<Rightarrow> json \<Rightarrow> pyerror + bool" where
  \<comment> \<open>\<open>k in x\<close> for a string \<open>k\<close>: a key of a dict, an element of a list, a substring of
      a string; other values are not containers\<close>
  "py_in k (JObj m) = Inr (map_of m k \<noteq> None)"
| "py_in k (JList xs) = Inr (list_ex (py_eq (JStr k)) xs)"
| "py_in k (JStr s) = Inr (str_in k s)"
| "py_in k _ = Inl TypeError"

fun py_getitem :: "json \<Rightarrow> string \<Rightarrow> pyerror + json" where
  \<comment> \<open>\<open>x[k]\<close> for a string \<open>k\<close>: a list or a string takes integer indices only\<close>
  "py_getitem (JObj m) k = (case map_of m k of None \<Rightarrow> Inl KeyError | Some v \<Rightarrow> Inr v)"
| "py_getitem _ k = Inl TypeError"

fun py_iter :: "json \<Rightarrow> pyerror + json list" where
  \<comment> \<open>the items \<open>for item in x\<close> runs over: elements, keys, characters (here one string
      per byte)\<close>
  "py_iter (JList xs) = Inr xs"
| "py_iter (JObj m) = Inr (map (\<lambda>kv. JStr (fst kv)) m)"
| "py_iter (JStr s) = Inr (map (\<lambda>c. JStr [c]) s)"
| "py_iter _ = Inl TypeError"

fun to_key :: "json \<Rightarrow> pyerror + hkey" where
  \<comment> \<open>a value as an element of a \<open>set\<close>: equal values (\<open>1\<close>, \<open>1.0\<close>, \<open>True\<close>) are one
      element; a list or a dict is unhashable\<close>
  "to_key JNull = Inr HNone"
| "to_key (JStr s) = Inr (HStr s)"
| "to_key (JList xs) = Inl TypeError"
| "to_key (JObj m) = Inl TypeError"
| "to_key (JBool b) = Inr (HNum (if b then 1 else 0))"
| "to_key (JInt i) = Inr (HNum (of_int i))"
| "to_key (JFloat r) = Inr (HNum r)"

definition issue_text :: "json \<Rightarrow> pyerror + string" where
  \<comment> \<open>\<open>(item.get("title", "") + " " + (item.get("body") or "")).lower()\<close>\<close>
  "issue_text item =
     (case py_get item ''title'' (JStr []) of
        Inl e \<Rightarrow> Inl e
      | Inr title \<Rightarrow>
          (case title of
             JStr t \<Rightarrow>
               (case py_get item ''body'' JNull of
                  Inl e \<Rightarrow> Inl e
                | Inr body \<Rightarrow>
                    (case (if truthy body then body else JStr []) of
                       JStr b \<Rightarrow> Inr (lower (t @ '' '' @ b))
                     | _ \<Rightarrow> Inl TypeError))
           | _ \<Rightarrow> Inl TypeError))"

definition has_keyword :: "string list \<Rightarrow> string \<Rightarrow> bool" where
  \<comment> \<open>\<open>any(kw.lower() in text for kw in keywords)\<close>\<close>
  "has_keyword keywords text = list_ex (\<lambda>kw. str_in (lower kw) text) keywords"

definition err_bind :: "pyerror + 'a \<Rightarrow> ('a \<Rightarrow> pyerror + 'b) \<Rightarrow> pyerror + 'b" where
  "err_bind r f = (case r of Inl e \<Rightarrow> Inl e | Inr x \<Rightarrow> f x)"

section \<open>Configuration, fixture and environment\<close>

text \<open>
  \<open>CONFIG\<close> is a module-level dictionary that no function changes; every function
  below takes it as an argument, and the constant \<open>CONFIG\<close> holds the values of the
  file. The entries no function reads (\<open>ENV_FILE_PATH\<close>, \<open>TARGET_FILE_PATH\<close>) are left
  out. \<open>EXPECTED_VALUES\<close> gives each parameter its expected \<open>before\<close> and \<open>after\<close>.
  \<open>RANGE_CONFIG\<close> is the value \<open>json.loads\<close> reads from the literal of the file: each
  parameter with its numbers \<open>min_before\<close> and \<open>max_before\<close>. \<open>DATE_FORMAT\<close> is the
  pattern as \<open>re.match\<close> applies it to a string.
\<close>

record config =
  GITHUB_TOKEN_VAR :: string
  REPO_OWNER_VAR :: string
  REPO_NAME_VAR :: string
  ANALYSIS_FILE_NAME :: string
  ANALYSIS_FILE_FORMAT :: string
  REQUIRED_PARAMETERS :: "string list"
  VALIDATION_MODE :: string
  EXPECTED_VALUES :: "(string \<times> json \<times> json) list"
  RANGE_CONFIG :: "(string \<times> rat \<times> rat) list"
  KEYWORDS :: "string list"
  INCLUDE_PR :: string
  ALLOW_EMPTY_ISSUES :: string
  STRICT_ISSUE_MATCH :: string
  VERIFY_COMMIT :: string
  VERIFY_PARAMETERS :: string
  VERIFY_ISSUES :: string
  DATE_FORMAT :: "string \<Rightarrow> bool"

definition kw_xiancun :: string where
  \<comment> \<open>the keyword of two CJK characters (U+663E U+5B58), in UTF-8\<close>
  "kw_xiancun = [CHR 0xE6, CHR 0x98, CHR 0xBE, CHR 0xE5, CHR 0xAD, CHR 0x98]"

definition CONFIG :: config where
  "CONFIG = \<lparr>
     GITHUB_TOKEN_VAR = ''MCP_GITHUB_TOKEN'',
     REPO_OWNER_VAR = ''REPO_OWNER'',
     REPO_NAME_VAR = ''REPO_NAME'',
     ANALYSIS_FILE_NAME = ''analysis_results.json'',
     ANALYSIS_FILE_FORMAT = ''json'',
     REQUIRED_PARAMETERS =
       [''micro_batch_size_per_device_for_update'',
        ''micro_batch_size_per_device_for_experience''],
     VALIDATION_MODE = ''exact'',
     EXPECTED_VALUES =
       [(''micro_batch_size_per_device_for_update'', JInt 4, JInt 2),
        (''micro_batch_size_per_device_for_experience'', JInt 8, JInt 4)],
     RANGE_CONFIG = [(''micro_batch_size_per_device_for_update'', 1, 16)],
     KEYWORDS = [''oom'', ''memory'', kw_xiancun],
     INCLUDE_PR = ''false'',
     ALLOW_EMPTY_ISSUES = ''false'',
     STRICT_ISSUE_MATCH = ''true'',
     VERIFY_COMMIT = ''true'',
     VERIFY_PARAMETERS = ''true'',
     VERIFY_ISSUES = ''true'',
     DATE_FORMAT = date_re_match \<rparr>"

definition SAMPLE_ANALYSIS :: "(string \<times> json) list" where
  "SAMPLE_ANALYSIS =
     [(''target_commit_sha'', JStr ''0f4b0c1e2a3b4c5d6e7f8a9b0c1d2e3f4a5b6c7d''),
      (''commit_author'', JStr ''example-author''),
      (''commit_date'', JStr ''2025-09-10''),
      (''parameter_changes'', JObj
         [(''micro_batch_size_per_device_for_update'', JObj
             [(''before'', JInt 4), (''after'', JInt 2), (''line_number'', JInt 120)]),
          (''micro_batch_size_per_device_for_experience'', JObj
             [(''before'', JInt 8), (''after'', JInt 4), (''line_number'', JInt 130)])]),
      (''related_issue_number_list'', JList [JInt 101, JInt 102])]"

text \<open>
  What the script takes from outside itself: the fixture dictionary the mock answers are
  built from (the constant \<open>SAMPLE_ANALYSIS\<close> in the file as it stands), the process
  environment, whether \<open>requests\<close> could be imported, the remote service (one answer per
  URL and \<open>Authorization\<close> header), and the library codecs \<open>base64\<close>, \<open>bytes.decode\<close> and
  \<open>json\<close>, where \<open>None\<close> stands for the exception the decoder raises. Encoding a string
  to UTF-8 is the identity on byte lists.
\<close>

datatype http_result =
    HttpException
  | HttpResponse int "json option"

record env =
  sample_analysis :: "(string \<times> json) list"
  getenv :: "string \<Rightarrow> string option"
  requests_available :: bool
  http_get :: "string \<Rightarrow> string \<Rightarrow> http_result"
  b64encode :: "string \<Rightarrow> string"
  b64decode :: "string \<Rightarrow> string option"
  utf8_decode :: "string \<Rightarrow> string option"
  json_dumps :: "json \<Rightarrow> string"
  json_loads :: "string \<Rightarrow> json option"

section \<open>The remote access adapter\<close>

definition get_github_credentials :: "env \<Rightarrow> config \<Rightarrow> string option \<times> string \<times> string" where
  "get_github_credentials E cfg =
     (getenv E (GITHUB_TOKEN_VAR cfg),
      (case getenv E (REPO_OWNER_VAR cfg) of None \<Rightarrow> ''example-owner'' | Some v \<Rightarrow> v),
      (case getenv E (REPO_NAME_VAR cfg) of None \<Rightarrow> ''example-repo'' | Some v \<Rightarrow> v))"

definition mock_issue_101 :: json where
  "mock_issue_101 =
     JObj [(''number'', JInt 101),
           (''title'', JStr ''oom on large batch''),
           (''body'', JStr ([CHR 0xE9, CHR 0x81, CHR 0x87, CHR 0xE5, CHR 0x88, CHR 0xB0]
                            @ '' OOM ''
                            @ [CHR 0xE9, CHR 0x97, CHR 0xAE, CHR 0xE9, CHR 0xA2, CHR 0x98]))]"

definition mock_issue_102 :: json where
  "mock_issue_102 =
     JObj [(''number'', JInt 102),
           (''title'', JStr (kw_xiancun @ [CHR 0xE4, CHR 0xB8, CHR 0x8D, CHR 0xE8, CHR 0xB6, CHR 0xB3])),
           (''body'', JStr ''memory usage spike'')]"

definition mock_commit :: "(string \<times> json) list \<Rightarrow> pyerror + json" where
  \<comment> \<open>the commit detail built from three entries of the fixture\<close>
  "mock_commit sample =
     err_bind (py_getitem (JObj sample) ''target_commit_sha'') (\<lambda>sha.
     err_bind (py_getitem (JObj sample) ''commit_author'') (\<lambda>author.
     err_bind (py_getitem (JObj sample) ''commit_date'') (\<lambda>date.
       Inr (JObj [(''sha'', sha),
                  (''author'', JObj [(''login'', author)]),
                  (''commit'', JObj [(''author'', JObj [(''date'', date)])])]))))"

definition api_url :: "string \<Rightarrow> string \<Rightarrow> string \<Rightarrow> string" where
  "api_url owner repo endpoint =
     ''https://api.github.com/repos/'' @ owner @ ''/'' @ repo @ ''/'' @ endpoint"

definition auth_header :: "string option \<Rightarrow> string" where
  "auth_header token = ''token '' @ (case token of None \<Rightarrow> ''None'' | Some t \<Rightarrow> t)"

definition contents_endpoint :: "string \<Rightarrow> string" where
  \<comment> \<open>\<open>f"contents/{analysis_file}"\<close>\<close>
  "contents_endpoint analysis_file = ''contents/'' @ analysis_file"

definition commit_endpoint :: "string \<Rightarrow> string" where
  \<comment> \<open>\<open>f"commits/{commit_sha}"\<close>\<close>
  "commit_endpoint commit_sha = ''commits/'' @ commit_sha"

definition github_api_request ::
  "env \<Rightarrow> string \<Rightarrow> string option \<Rightarrow> string \<Rightarrow> string \<Rightarrow> bool \<Rightarrow> (bool \<times> json) io" where
  "github_api_request E endpoint token owner repo mock =
     (if mock then
        (if startswith endpoint ''contents/'' then
           ret (True, JObj [(''content'',
                  JStr (b64encode E (json_dumps E (JObj (sample_analysis E)))))])
         else if startswith endpoint ''commits/'' then
           io_bind (lift (mock_commit (sample_analysis E))) (\<lambda>c. ret (True, c))
         else if startswith endpoint ''issues?'' then
           ret (True, JList [mock_issue_101, mock_issue_102])
         else if startswith endpoint ''issues/'' then
           (case py_int (last_segment endpoint) of
              None \<Rightarrow> raise ValueError
            | Some num \<Rightarrow>
                if num = 101 then ret (True, mock_issue_101)
                else if num = 102 then ret (True, mock_issue_102)
                else ret (False, JNull))
         else ret (False, JNull))
      else if \<not> requests_available E then print_err RequestsUnavailable (False, JNull)
      else
        (case http_get E (api_url owner repo endpoint) (auth_header token) of
           HttpException \<Rightarrow> print_err ApiException (False, JNull)
         | HttpResponse status_code body \<Rightarrow>
             if status_code = 200 then
               (case body of
                  Some j \<Rightarrow> ret (True, j)
                | None \<Rightarrow> print_err ApiException (False, JNull))
             else if status_code = 404 then ret (False, JNull)
             else print_err (ApiError status_code endpoint) (False, JNull)))"

section \<open>The document loader\<close>

definition decode_analysis :: "env \<Rightarrow> config \<Rightarrow> json \<Rightarrow> json option" where
  \<comment> \<open>the body of the \<open>try\<close>: \<open>None\<close> when it raises (any exception is caught), the
      returned value otherwise; \<open>b64decode\<close> raises \<open>TypeError\<close> on what is not a string\<close>
  "decode_analysis E cfg file_data =
     (case py_get file_data ''content'' (JStr []) of
        Inl e \<Rightarrow> None
      | Inr content_encoded \<Rightarrow>
          (case content_encoded of
             JStr enc \<Rightarrow>
               (case b64decode E enc of
                  None \<Rightarrow> None
                | Some bytes \<Rightarrow>
                    (case utf8_decode E bytes of
                       None \<Rightarrow> None
                     | Some content \<Rightarrow>
                         if ANALYSIS_FILE_FORMAT cfg = ''json'' then json_loads E content
                         else Some JNull))
           | _ \<Rightarrow> None))"

definition load_analysis_results ::
  "env \<Rightarrow> config \<Rightarrow> string option \<Rightarrow> string \<Rightarrow> string \<Rightarrow> bool \<Rightarrow> json io" where
  "load_analysis_results E cfg token owner repo mock =
     io_bind (github_api_request E (contents_endpoint (ANALYSIS_FILE_NAME cfg)) token owner repo mock)
       (\<lambda>r. if \<not> fst r \<or> \<not> truthy (snd r) then ret JNull
            else (case decode_analysis E cfg (snd r) of
                    None \<Rightarrow> print_err (ParseError (ANALYSIS_FILE_NAME cfg)) JNull
                  | Some doc \<Rightarrow> ret doc))"

section \<open>The commit validator\<close>

definition actual_author :: "json \<Rightarrow> pyerror + json" where
  \<comment> \<open>\<open>commit_data.get("author", {}).get("login")\<close>, and when that is falsy
      \<open>commit_data.get("commit", {}).get("author", {}).get("name")\<close>\<close>
  "actual_author commit_data =
     err_bind (py_get commit_data ''author'' (JObj [])) (\<lambda>a.
     err_bind (py_get a ''login'' JNull) (\<lambda>login.
       if \<not> truthy login then
         err_bind (py_get commit_data ''commit'' (JObj [])) (\<lambda>c.
         err_bind (py_get c ''author'' (JObj [])) (\<lambda>ca.
           py_get ca ''name'' JNull))
       else Inr login))"

definition verify_commit_data ::
  "env \<Rightarrow> config \<Rightarrow> json \<Rightarrow> string option \<Rightarrow> string \<Rightarrow> string \<Rightarrow> bool \<Rightarrow> bool io" where
  "verify_commit_data E cfg results token owner repo mock =
     io_bind (lift (py_get results ''target_commit_sha'' JNull)) (\<lambda>commit_sha.
       case commit_sha of
         JStr sha \<Rightarrow>
           if \<not> sha_re_match sha then print_err (InvalidShaFormat commit_sha) False
           else
             io_bind (github_api_request E (commit_endpoint sha) token owner repo mock) (\<lambda>r.
               if \<not> fst r \<or> \<not> truthy (snd r) then print_err (CommitNotFound sha) False
               else
                 io_bind (lift (py_get results ''commit_author'' JNull)) (\<lambda>expected_author.
                 io_bind (lift (actual_author (snd r))) (\<lambda>actual.
                   if \<not> py_eq expected_author actual
                   then print_err (AuthorMismatch expected_author actual) False
                   else
                     io_bind (lift (py_get results ''commit_date'' (JStr []))) (\<lambda>commit_date.
                       case commit_date of
                         JStr d \<Rightarrow>
                           if \<not> DATE_FORMAT cfg d
                           then print_err (InvalidDateFormat commit_date) False
                           else ret True
                       | _ \<Rightarrow> raise TypeError))))
       | _ \<Rightarrow> print_err (InvalidShaFormat commit_sha) False)"

section \<open>The parameter validator\<close>

text \<open>
  Each \<open>for\<close> loop that can \<open>return False\<close> from inside is a recursive function whose
  result says whether the loop ran to its end (\<open>True\<close>) or the validator returned
  \<open>False\<close> there.
\<close>

fun check_fields :: "string \<Rightarrow> json \<Rightarrow> string list \<Rightarrow> bool io" where
  "check_fields param change [] = ret True"
| "check_fields param change (field # fs) =
     io_bind (lift (py_in field change)) (\<lambda>present.
       if \<not> present then print_err (MissingField field param) False
       else check_fields param change fs)"

fun check_required :: "json \<Rightarrow> string list \<Rightarrow> bool io" where
  "check_required param_changes [] = ret True"
| "check_required param_changes (param # params) =
     io_bind (lift (py_in param param_changes)) (\<lambda>present.
       if \<not> present then print_err (MissingParameter param) False
       else
         io_bind (lift (py_getitem param_changes param)) (\<lambda>change.
         io_bind (check_fields param change [''before'', ''after'', ''line_number'']) (\<lambda>ok.
           if \<not> ok then ret False else check_required param_changes params)))"

fun check_exact :: "json \<Rightarrow> (string \<times> json \<times> json) list \<Rightarrow> bool io" where
  "check_exact param_changes [] = ret True"
| "check_exact param_changes ((param, expected_before, expected_after) # rest) =
     io_bind (lift (py_get param_changes param (JObj []))) (\<lambda>actual.
     io_bind (lift (py_get actual ''before'' JNull)) (\<lambda>b.
     io_bind (lift (py_get actual ''after'' JNull)) (\<lambda>a.
       if \<not> py_eq b expected_before \<or> \<not> py_eq a expected_after
       then print_err (ValueMismatch param) False
       else check_exact param_changes rest)))"

fun check_any :: "json \<Rightarrow> string list \<Rightarrow> bool io" where
  "check_any param_changes [] = ret True"
| "check_any param_changes (param # params) =
     io_bind (lift (py_get param_changes param (JObj []))) (\<lambda>actual.
     io_bind (lift (py_get actual ''before'' JNull)) (\<lambda>b.
     io_bind (lift (py_get actual ''after'' JNull)) (\<lambda>a.
       if py_eq b a then print_err (NoChange param) False
       else check_any param_changes params)))"

definition in_range :: "rat \<Rightarrow> json \<Rightarrow> rat \<Rightarrow> pyerror + bool" where
  \<comment> \<open>\<open>lo <= x <= hi\<close> for numbers \<open>lo\<close>, \<open>hi\<close>: a number against what is not a number
      raises \<open>TypeError\<close>\<close>
  "in_range lo x hi =
     (case num_val x of None \<Rightarrow> Inl TypeError | Some v \<Rightarrow> Inr (lo \<le> v \<and> v \<le> hi))"

fun check_range :: "json \<Rightarrow> (string \<times> rat \<times> rat) list \<Rightarrow> bool io" where
  "check_range param_changes [] = ret True"
| "check_range param_changes ((param, min_before, max_before) # rest) =
     io_bind (lift (py_get param_changes param (JObj []))) (\<lambda>actual.
     io_bind (lift (py_get actual ''before'' JNull)) (\<lambda>before_val.
       if before_val = JNull then print_err (NotInRange param before_val) False
       else
         io_bind (lift (in_range min_before before_val max_before)) (\<lambda>inside.
           if \<not> inside then print_err (NotInRange param before_val) False
           else check_range param_changes rest)))"

definition verify_parameter_changes :: "config \<Rightarrow> json \<Rightarrow> bool io" where
  "verify_parameter_changes cfg results =
     io_bind (lift (py_get results ''parameter_changes'' (JObj []))) (\<lambda>param_changes.
     io_bind (check_required param_changes (REQUIRED_PARAMETERS cfg)) (\<lambda>ok.
       if \<not> ok then ret False
       else if VALIDATION_MODE cfg = ''exact'' then
         check_exact param_changes (EXPECTED_VALUES cfg)
       else if VALIDATION_MODE cfg = ''any'' then
         check_any param_changes (REQUIRED_PARAMETERS cfg)
       else if VALIDATION_MODE cfg = ''range'' then
         check_range param_changes (RANGE_CONFIG cfg)
       else print_err (UnknownMode (VALIDATION_MODE cfg)) False))"

section \<open>The issue validator\<close>

fun scan_items :: "config \<Rightarrow> json list \<Rightarrow> hkey set \<Rightarrow> pyerror + hkey set" where
  \<comment> \<open>the \<open>for item in data\<close> loop of one page\<close>
  "scan_items cfg [] issues = Inr issues"
| "scan_items cfg (item # items) issues =
     err_bind (if lower (INCLUDE_PR cfg) = ''true'' then Inr False
               else py_in ''pull_request'' item) (\<lambda>skip.
       if skip then scan_items cfg items issues
       else
         err_bind (py_get item ''number'' JNull) (\<lambda>number.
         err_bind (issue_text item) (\<lambda>text.
           if has_keyword (KEYWORDS cfg) text
           then err_bind (to_key number) (\<lambda>k. scan_items cfg items (insert k issues))
           else scan_items cfg items issues)))"

definition short_page :: "json \<Rightarrow> bool" where
  \<comment> \<open>\<open>isinstance(data, list) and len(data) < 100\<close>\<close>
  "short_page data = (case data of JList xs \<Rightarrow> length xs < 100 | _ \<Rightarrow> False)"

definition page_endpoint :: "nat \<Rightarrow> string" where
  "page_endpoint page = ''issues?state=all&per_page=100&page='' @ show_nat page"

text \<open>
  The \<open>while True\<close> loop, from a page number, the set collected so far and the log so
  far. Nothing bounds the number of pages, so the loop is a partial function: \<open>None\<close>
  means that it never returns.
\<close>

partial_function (option) issues_loop ::
  "env \<Rightarrow> config \<Rightarrow> string option \<Rightarrow> string \<Rightarrow> string \<Rightarrow> bool
   \<Rightarrow> nat \<Rightarrow> hkey set \<Rightarrow> diag list \<Rightarrow> (hkey set) io option" where
  "issues_loop E cfg token owner repo mock page issues lg =
     (case github_api_request E (page_endpoint page) token owner repo mock of
        (lg1, Inl e) \<Rightarrow> Some (lg @ lg1, Inl e)
      | (lg1, Inr r) \<Rightarrow>
          if \<not> fst r \<or> \<not> truthy (snd r) then Some (lg @ lg1, Inr issues)
          else
            (case err_bind (py_iter (snd r)) (\<lambda>items. scan_items cfg items issues) of
               Inl e \<Rightarrow> Some (lg @ lg1, Inl e)
             | Inr issues' \<Rightarrow>
                 if short_page (snd r) then Some (lg @ lg1, Inr issues')
                 else issues_loop E cfg token owner repo mock (page + 1) issues' (lg @ lg1)))"

definition get_relevant_issues ::
  "env \<Rightarrow> config \<Rightarrow> string option \<Rightarrow> string \<Rightarrow> string \<Rightarrow> bool \<Rightarrow> (hkey set) io option" where
  "get_relevant_issues E cfg token owner repo mock =
     issues_loop E cfg token owner repo mock 1 {} []"

fun is_int :: "json \<Rightarrow> bool" where
  \<comment> \<open>\<open>isinstance(x, int)\<close>: \<open>bool\<close> is a subclass of \<open>int\<close>\<close>
  "is_int (JInt i) = True"
| "is_int (JBool b) = True"
| "is_int _ = False"

fun int_val :: "json \<Rightarrow> int" where
  "int_val (JInt i) = i"
| "int_val (JBool b) = (if b then 1 else 0)"
| "int_val _ = 0"

fun py_str :: "json \<Rightarrow> string" where
  \<comment> \<open>how an f-string writes an \<open>int\<close> or a \<open>bool\<close> (the only values formatted into an
      endpoint)\<close>
  "py_str (JInt i) = show_int i"
| "py_str (JBool b) = (if b then ''True'' else ''False'')"
| "py_str _ = []"

definition issue_endpoint :: "json \<Rightarrow> string" where
  \<comment> \<open>\<open>f"issues/{issue_num}"\<close>\<close>
  "issue_endpoint issue_num = ''issues/'' @ py_str issue_num"

fun check_issues ::
  "env \<Rightarrow> config \<Rightarrow> string option \<Rightarrow> string \<Rightarrow> string \<Rightarrow> bool \<Rightarrow> json list \<Rightarrow> bool io" where
  \<comment> \<open>the \<open>for issue_num in issue_list\<close> loop\<close>
  "check_issues E cfg token owner repo mock [] = ret True"
| "check_issues E cfg token owner repo mock (issue_num # rest) =
     (if \<not> is_int issue_num \<or> int_val issue_num \<le> 0
      then print_err (InvalidIssueNumber issue_num) False
      else
        io_bind (github_api_request E (issue_endpoint issue_num) token owner repo mock) (\<lambda>r.
          if \<not> fst r \<or> \<not> truthy (snd r) then print_err (IssueNotFound issue_num) False
          else
            io_bind (lift (issue_text (snd r))) (\<lambda>text.
              if \<not> has_keyword (KEYWORDS cfg) text
              then print_err (IssueMissingKeywords issue_num) False
              else check_issues E cfg token owner repo mock rest)))"

fun py_set :: "json list \<Rightarrow> pyerror + hkey set" where
  \<comment> \<open>\<open>set(xs)\<close>\<close>
  "py_set [] = Inr {}"
| "py_set (x # xs) = err_bind (to_key x) (\<lambda>k. err_bind (py_set xs) (\<lambda>s. Inr (insert k s)))"

definition report_mismatch :: "config \<Rightarrow> hkey set \<Rightarrow> hkey set \<Rightarrow> bool io" where
  \<comment> \<open>lines 291 to 301: the comparison of the two sets and what follows it\<close>
  "report_mismatch cfg provided_issues expected_issues =
     (if provided_issues \<noteq> expected_issues then
        (let missing = expected_issues - provided_issues;
             extra = provided_issues - expected_issues
         in ((if missing \<noteq> {} then [MissingIssues missing] else [])
             @ (if extra \<noteq> {} then [ExtraIssues extra] else []),
             Inr (if lower (STRICT_ISSUE_MATCH cfg) = ''true'' then False else True)))
      else ret True)"

definition io_opt_bind :: "'a io option \<Rightarrow> ('a \<Rightarrow> 'b io option) \<Rightarrow> 'b io option" where
  \<comment> \<open>sequencing where a step may never return\<close>
  "io_opt_bind m f =
     (case m of
        None \<Rightarrow> None
      | Some (lg, Inl e) \<Rightarrow> Some (lg, Inl e)
      | Some (lg, Inr x) \<Rightarrow>
          (case f x of None \<Rightarrow> None | Some (lg', r) \<Rightarrow> Some (lg @ lg', r)))"

definition verify_issues ::
  "env \<Rightarrow> config \<Rightarrow> json \<Rightarrow> string option \<Rightarrow> string \<Rightarrow> string \<Rightarrow> bool \<Rightarrow> bool io option" where
  "verify_issues E cfg results token owner repo mock =
     (case py_get results ''related_issue_number_list'' (JList []) of
        Inl e \<Rightarrow> Some (raise e)
      | Inr il \<Rightarrow>
          (case il of
             JList issue_list \<Rightarrow>
               if length issue_list = 0 \<and> \<not> lower (ALLOW_EMPTY_ISSUES cfg) = ''true''
               then Some (print_err IssueListEmpty False)
               else
                 io_opt_bind (Some (check_issues E cfg token owner repo mock issue_list)) (\<lambda>ok.
                   if \<not> ok then Some (ret False)
                   else
                     io_opt_bind (get_relevant_issues E cfg token owner repo mock) (\<lambda>expected_issues.
                     io_opt_bind (Some (lift (py_set issue_list))) (\<lambda>provided_issues.
                       Some (report_mismatch cfg provided_issues expected_issues))))
           | _ \<Rightarrow> Some (print_err IssueListNotList False)))"

section \<open>The driver\<close>

definition stage :: "string \<Rightarrow> bool io option \<Rightarrow> bool io option" where
  \<comment> \<open>a validator runs when its switch reads \<open>true\<close>; one that does not run leaves
      \<open>all_passed\<close> as it is\<close>
  "stage switch v = (if lower switch = ''true'' then v else Some (ret True))"

definition run_validators ::
  "env \<Rightarrow> config \<Rightarrow> json \<Rightarrow> string option \<Rightarrow> string \<Rightarrow> string \<Rightarrow> bool \<Rightarrow> int io option" where
  \<comment> \<open>lines 331 to 358 of \<open>main\<close>: the three stages in order and the exit code\<close>
  "run_validators E cfg results token owner repo mock =
     io_opt_bind (stage (VERIFY_COMMIT cfg)
                    (Some (verify_commit_data E cfg results token owner repo mock))) (\<lambda>p1.
     io_opt_bind (stage (VERIFY_PARAMETERS cfg)
                    (Some (verify_parameter_changes cfg results))) (\<lambda>p2.
     io_opt_bind (stage (VERIFY_ISSUES cfg)
                    (verify_issues E cfg results token owner repo mock)) (\<lambda>p3.
       Some (ret (if p1 \<and> p2 \<and> p3 then 0 else 1)))))"

definition main :: "env \<Rightarrow> config \<Rightarrow> bool \<Rightarrow> int io option" where
  \<comment> \<open>the exit code of the process, from the environment and the \<open>--mock\<close> flag; an
      exception that escapes is \<open>Inl\<close> (the interpreter then exits with code 1)\<close>
  "main E cfg mock_flag =
     (case get_github_credentials E cfg of
        (token, owner, repo) \<Rightarrow>
          (let no_token = (token = None \<or> token = Some []);
               switched = (no_token \<and> \<not> mock_flag);
               mock = (if switched then True else mock_flag)
           in io_opt_bind (Some (if switched then print_err NoTokenWarning () else ret ())) (\<lambda>u.
                if \<not> mock \<and> \<not> requests_available E then Some (print_err RequestsNotInstalled 1)
                else
                  io_opt_bind (Some (load_analysis_results E cfg token owner repo mock)) (\<lambda>results.
                    if \<not> truthy results then Some (print_err AnalysisNotFound 1)
                    else run_validators E cfg results token owner repo mock))))"

section \<open>Environments, documents and predicates for the statements\<close>

definition codec_roundtrip :: "env \<Rightarrow> json \<Rightarrow> bool" where
  \<comment> \<open>decoding what the mock adapter encodes gives the document back:
      \<open>json.loads(b64decode(b64encode(json.dumps(doc).encode()).decode()).decode()) == doc\<close>\<close>
  "codec_roundtrip E doc =
     (case b64decode E (b64encode E (json_dumps E doc)) of
        None \<Rightarrow> False
      | Some bytes \<Rightarrow>
          (case utf8_decode E bytes of
             None \<Rightarrow> False
           | Some content \<Rightarrow> json_loads E content = Some doc))"

definition offline_env :: "(string \<times> json) list \<Rightarrow> env" where
  \<comment> \<open>a machine without token, without \<open>requests\<close> and without network, whose fixture is
      \<open>sample\<close>; the codecs are a transport that gives the fixture back\<close>
  "offline_env sample = \<lparr>
     sample_analysis = sample,
     getenv = (\<lambda>v. None),
     requests_available = False,
     http_get = (\<lambda>url auth. HttpException),
     b64encode = (\<lambda>s. s),
     b64decode = (\<lambda>s. Some s),
     utf8_decode = (\<lambda>s. Some s),
     json_dumps = (\<lambda>j. ''fixture''),
     json_loads = (\<lambda>s. if s = ''fixture'' then Some (JObj sample) else None) \<rparr>"

definition with_entry :: "(string \<times> json) list \<Rightarrow> string \<Rightarrow> json \<Rightarrow> (string \<times> json) list" where
  \<comment> \<open>\<open>d[k] = v\<close> on a copy of the dict \<open>d\<close>\<close>
  "with_entry d k v =
     (if map_of d k = None then d @ [(k, v)]
      else map (\<lambda>kv. if fst kv = k then (k, v) else kv) d)"

text \<open>Parts of the fixture and of the mock answers, named for the statements below.\<close>

definition sample_sha :: string where
  "sample_sha = ''0f4b0c1e2a3b4c5d6e7f8a9b0c1d2e3f4a5b6c7d''"

definition sample_changes :: json where
  "sample_changes = JObj
     [(''micro_batch_size_per_device_for_update'', JObj
         [(''before'', JInt 4), (''after'', JInt 2), (''line_number'', JInt 120)]),
      (''micro_batch_size_per_device_for_experience'', JObj
         [(''before'', JInt 8), (''after'', JInt 4), (''line_number'', JInt 130)])]"

definition text_101 :: string where
  "text_101 = ''oom on large batch ''
              @ [CHR 0xE9, CHR 0x81, CHR 0x87, CHR 0xE5, CHR 0x88, CHR 0xB0]
              @ '' oom ''
              @ [CHR 0xE9, CHR 0x97, CHR 0xAE, CHR 0xE9, CHR 0xA2, CHR 0x98]"

definition text_102 :: string where
  "text_102 = kw_xiancun @ [CHR 0xE4, CHR 0xB8, CHR 0x8D, CHR 0xE8, CHR 0xB6, CHR 0xB3]
              @ '' memory usage spike''"

text \<open>Documents of the data model's shape, and what the parameter validator reads in them.\<close>

definition objects_only :: "(string \<times> json) list \<Rightarrow> bool" where
  \<comment> \<open>every recorded change is a dict\<close>
  "objects_only pc = list_all (\<lambda>kv. case snd kv of JObj c \<Rightarrow> True | _ \<Rightarrow> False) pc"

definition param_field :: "(string \<times> json) list \<Rightarrow> string \<Rightarrow> string \<Rightarrow> json" where
  \<comment> \<open>\<open>param_changes.get(param, {}).get(field)\<close> where the changes are dicts\<close>
  "param_field pc param field =
     (case map_of pc param of
        Some (JObj change) \<Rightarrow> (case map_of change field of Some v \<Rightarrow> v | None \<Rightarrow> JNull)
      | _ \<Rightarrow> JNull)"

definition has_fields :: "(string \<times> json) list \<Rightarrow> string \<Rightarrow> bool" where
  \<comment> \<open>the parameter is recorded with \<open>before\<close>, \<open>after\<close> and \<open>line_number\<close>\<close>
  "has_fields pc param =
     (case map_of pc param of
        Some (JObj change) \<Rightarrow>
          list_all (\<lambda>field. map_of change field \<noteq> None) [''before'', ''after'', ''line_number'']
      | _ \<Rightarrow> False)"

definition changes_with :: "json \<Rightarrow> json \<Rightarrow> (string \<times> json) list" where
  \<comment> \<open>the sample's changes with other values for the first parameter\<close>
  "changes_with b a =
     [(''micro_batch_size_per_device_for_update'', JObj
         [(''before'', b), (''after'', a), (''line_number'', JInt 120)]),
      (''micro_batch_size_per_device_for_experience'', JObj
         [(''before'', JInt 8), (''after'', JInt 4), (''line_number'', JInt 130)])]"

definition range_config :: config where
  "range_config = CONFIG\<lparr>VALIDATION_MODE := ''range''\<rparr>"

text \<open>The set of the document's issue numbers and the report on a mismatch.\<close>

definition issue_key :: "json \<Rightarrow> hkey" where
  \<comment> \<open>an issue number of the document as an element of \<open>set(issue_list)\<close>\<close>
  "issue_key x = HNum (of_int (int_val x))"

definition mismatch_report :: "hkey set \<Rightarrow> hkey set \<Rightarrow> diag list" where
  \<comment> \<open>the lines about the symmetric difference\<close>
  "mismatch_report provided expected =
     (if expected - provided \<noteq> {} then [MissingIssues (expected - provided)] else [])
     @ (if provided - expected \<noteq> {} then [ExtraIssues (provided - expected)] else [])"

definition lenient_config :: config where
  "lenient_config = CONFIG\<lparr>STRICT_ISSUE_MATCH := ''false''\<rparr>"

text \<open>Pages of the issue listing, and services for the statements about pagination.\<close>

definition fetch_page :: "env \<Rightarrow> string option \<Rightarrow> string \<Rightarrow> string \<Rightarrow> bool \<Rightarrow> nat \<Rightarrow> (bool \<times> json) io" where
  \<comment> \<open>line 248: the request for one page of the listing\<close>
  "fetch_page E token owner repo mock page =
     github_api_request E (page_endpoint page) token owner repo mock"

definition scans :: "config \<Rightarrow> json list \<Rightarrow> bool" where
  \<comment> \<open>the item loop runs over the page without an exception\<close>
  "scans cfg xs = (case scan_items cfg xs {} of Inl e \<Rightarrow> False | Inr found \<Rightarrow> True)"

definition full_page :: "config \<Rightarrow> (bool \<times> json) io \<Rightarrow> bool" where
  \<comment> \<open>a fetched page that is a list of 100 items or more\<close>
  "full_page cfg r =
     (case snd r of
        Inl e \<Rightarrow> False
      | Inr (success, data) \<Rightarrow>
          success \<and> (case data of JList xs \<Rightarrow> 100 \<le> length xs \<and> scans cfg xs | _ \<Rightarrow> False))"

definition last_page :: "config \<Rightarrow> (bool \<times> json) io \<Rightarrow> bool" where
  \<comment> \<open>a fetched page that is absent (failed fetch, empty payload) or a list of fewer than
      100 items\<close>
  "last_page cfg r =
     (case snd r of
        Inl e \<Rightarrow> False
      | Inr (success, data) \<Rightarrow>
          \<not> success \<or> \<not> truthy data
          \<or> (case data of JList xs \<Rightarrow> length xs < 100 \<and> scans cfg xs | _ \<Rightarrow> False))"

definition hundred_empty :: json where
  "hundred_empty = JList (replicate 100 (JObj []))"

definition full_pages_env :: env where
  \<comment> \<open>a service that answers every request with a page of 100 issues without text\<close>
  "full_pages_env = (offline_env SAMPLE_ANALYSIS)
     \<lparr>requests_available := True,
      http_get := (\<lambda>url auth. HttpResponse 200 (Some hundred_empty))\<rparr>"

definition one_full_page_env :: env where
  \<comment> \<open>a service with one page of 100 issues and nothing after it\<close>
  "one_full_page_env = (offline_env SAMPLE_ANALYSIS)
     \<lparr>requests_available := True,
      http_get := (\<lambda>url auth.
        if url = api_url ''example-owner'' ''example-repo'' (page_endpoint 1)
        then HttpResponse 200 (Some hundred_empty)
        else HttpResponse 404 None)\<rparr>"

definition dict_page_env :: env where
  \<comment> \<open>a service whose first page is a dict, not a list, and whose second page lists one
      issue\<close>
  "dict_page_env = (offline_env SAMPLE_ANALYSIS)
     \<lparr>requests_available := True,
      http_get := (\<lambda>url auth.
        if url = api_url ''example-owner'' ''example-repo'' (page_endpoint 1)
        then HttpResponse 200 (Some (JObj [(''pull_request'', JNull)]))
        else if url = api_url ''example-owner'' ''example-repo'' (page_endpoint 2)
        then HttpResponse 200 (Some (JList [JObj [(''number'', JInt 7), (''title'', JStr ''oom'')]]))
        else HttpResponse 404 None)\<rparr>"



















definition null_author_env :: env where
  \<comment> \<open>a service whose commit detail has no linked account: \<open>"author": null\<close>\<close>
  "null_author_env = (offline_env SAMPLE_ANALYSIS)
     \<lparr>requests_available := True,
      http_get := (\<lambda>url auth. HttpResponse 200 (Some (JObj
        [(''sha'', JStr sample_sha),
         (''author'', JNull),
         (''commit'', JObj [(''author'', JObj [(''name'', JStr ''example-author'')])])])))\<rparr>"

section \<open>Basic facts\<close>

text \<open>The loops are unfolded on demand only.\<close>

declare scan_items.simps [simp del]
declare check_issues.simps [simp del]
declare check_fields.simps [simp del]
declare check_required.simps [simp del]
declare check_exact.simps [simp del]
declare check_any.simps [simp del]
declare check_range.simps [simp del]
declare py_set.simps [simp del]
declare py_str.simps [simp del]

lemmas io_defs = ret_def raise_def print_err_def io_bind_def lift_def err_bind_def

lemma contents_fetch_returns:
  "\<exists>lg success file_data.
     github_api_request E (contents_endpoint name) token owner repo mock
     = (lg, Inr (success, file_data))"
  by (auto simp: github_api_request_def contents_endpoint_def startswith_def io_defs
           split: http_result.splits option.splits)

section \<open>The adapter offline\<close>

text \<open>
  C10. With \<open>mock\<close> set, the adapter's outcome for an endpoint (the pair it returns, the
  lines it logs, or the exception it raises) is the same for any two credential triples:
  the token, the owner and the repository are not read.
\<close>

theorem mock_request_ignores_credentials:
  "github_api_request E endpoint token1 owner1 repo1 True
   = github_api_request E endpoint token2 owner2 repo2 True"
  by (simp add: github_api_request_def)

theorem mock_request_ignores_credentials_witness:
  "github_api_request (offline_env SAMPLE_ANALYSIS) ''issues/101''
     None ''example-owner'' ''example-repo'' True
   = github_api_request (offline_env SAMPLE_ANALYSIS) ''issues/101''
     (Some ''secret'') ''other'' ''elsewhere'' True"
  by (rule mock_request_ignores_credentials)

section \<open>The loader\<close>

text \<open>
  C9. Let the adapter answer the contents request with \<open>(success, file_data)\<close>. The
  loader returns \<open>None\<close> when the fetch failed or carried nothing, when the configured
  format is not \<open>json\<close>, when the payload has no string \<open>content\<close>, when base64 decoding,
  text decoding or JSON parsing raises. It never raises itself, and a result other than
  \<open>None\<close> is exactly the value \<open>json.loads\<close> returned for the fully decoded content.
\<close>

theorem load_analysis_results_none_or_whole:
  assumes fetch:
    "github_api_request E (contents_endpoint (ANALYSIS_FILE_NAME cfg)) token owner repo mock
     = (lg, Inr (success, file_data))"
  shows "(\<not> success \<or> \<not> truthy file_data
            \<longrightarrow> load_analysis_results E cfg token owner repo mock = (lg, Inr JNull))
       \<and> (ANALYSIS_FILE_FORMAT cfg \<noteq> ''json''
            \<longrightarrow> snd (load_analysis_results E cfg token owner repo mock) = Inr JNull)
       \<and> ((\<forall>enc. py_get file_data ''content'' (JStr []) \<noteq> Inr (JStr enc))
            \<longrightarrow> snd (load_analysis_results E cfg token owner repo mock) = Inr JNull)
       \<and> (\<forall>enc. py_get file_data ''content'' (JStr []) = Inr (JStr enc)
              \<and> b64decode E enc = None
            \<longrightarrow> snd (load_analysis_results E cfg token owner repo mock) = Inr JNull)
       \<and> (\<forall>enc bytes. py_get file_data ''content'' (JStr []) = Inr (JStr enc)
              \<and> b64decode E enc = Some bytes \<and> utf8_decode E bytes = None
            \<longrightarrow> snd (load_analysis_results E cfg token owner repo mock) = Inr JNull)
       \<and> (\<forall>enc bytes content. py_get file_data ''content'' (JStr []) = Inr (JStr enc)
              \<and> b64decode E enc = Some bytes \<and> utf8_decode E bytes = Some content
              \<and> json_loads E content = None
            \<longrightarrow> snd (load_analysis_results E cfg token owner repo mock) = Inr JNull)
       \<and> (\<forall>doc. snd (load_analysis_results E cfg token owner repo mock) = Inr doc
              \<and> doc \<noteq> JNull
            \<longrightarrow> success \<and> ANALYSIS_FILE_FORMAT cfg = ''json''
                \<and> (\<exists>enc bytes content.
                      py_get file_data ''content'' (JStr []) = Inr (JStr enc)
                      \<and> b64decode E enc = Some bytes
                      \<and> utf8_decode E bytes = Some content
                      \<and> json_loads E content = Some doc))
       \<and> (\<exists>doc. snd (load_analysis_results E cfg token owner repo mock) = Inr doc)"
  unfolding load_analysis_results_def decode_analysis_def
  using fetch
  by (auto simp: io_defs split: sum.splits json.splits option.splits)

theorem load_analysis_results_none_or_whole_witness:
  "snd (load_analysis_results ((offline_env SAMPLE_ANALYSIS)\<lparr>b64decode := (\<lambda>s. None)\<rparr>)
          CONFIG None ''example-owner'' ''example-repo'' True) = Inr JNull"
proof -
  have fetch:
    "github_api_request ((offline_env SAMPLE_ANALYSIS)\<lparr>b64decode := (\<lambda>s. None)\<rparr>)
       (contents_endpoint (ANALYSIS_FILE_NAME CONFIG)) None ''example-owner'' ''example-repo'' True
     = ([], Inr (True, JObj [(''content'', JStr ''fixture'')]))"
    by (simp add: github_api_request_def contents_endpoint_def offline_env_def CONFIG_def
          startswith_def io_defs)
  from load_analysis_results_none_or_whole [OF fetch] show ?thesis
    by (simp add: offline_env_def)
qed

section \<open>The validators on the fixture, offline\<close>

lemmas re_defs = sha_re_match_def date_re_match_def is_hex_def is_digit_def at_end_def newline_def

lemma CONFIG_fields:
  "ANALYSIS_FILE_NAME CONFIG = ''analysis_results.json''"
  "ANALYSIS_FILE_FORMAT CONFIG = ''json''"
  "REQUIRED_PARAMETERS CONFIG =
     [''micro_batch_size_per_device_for_update'', ''micro_batch_size_per_device_for_experience'']"
  "VALIDATION_MODE CONFIG = ''exact''"
  "EXPECTED_VALUES CONFIG =
     [(''micro_batch_size_per_device_for_update'', JInt 4, JInt 2),
      (''micro_batch_size_per_device_for_experience'', JInt 8, JInt 4)]"
  "KEYWORDS CONFIG = [''oom'', ''memory'', kw_xiancun]"
  "INCLUDE_PR CONFIG = ''false''"
  "ALLOW_EMPTY_ISSUES CONFIG = ''false''"
  "STRICT_ISSUE_MATCH CONFIG = ''true''"
  "VERIFY_COMMIT CONFIG = ''true''"
  "VERIFY_PARAMETERS CONFIG = ''true''"
  "VERIFY_ISSUES CONFIG = ''true''"
  "DATE_FORMAT CONFIG = date_re_match"
  "GITHUB_TOKEN_VAR CONFIG = ''MCP_GITHUB_TOKEN''"
  by (simp_all add: CONFIG_def)

lemma sample_entries:
  "map_of SAMPLE_ANALYSIS ''target_commit_sha'' = Some (JStr sample_sha)"
  "map_of SAMPLE_ANALYSIS ''commit_author'' = Some (JStr ''example-author'')"
  "map_of SAMPLE_ANALYSIS ''commit_date'' = Some (JStr ''2025-09-10'')"
  "map_of SAMPLE_ANALYSIS ''related_issue_number_list'' = Some (JList [JInt 101, JInt 102])"
  "SAMPLE_ANALYSIS \<noteq> []"
  by (simp_all add: SAMPLE_ANALYSIS_def sample_sha_def)

lemma sample_formats:
  "sha_re_match sample_sha"
  "date_re_match ''2025-09-10''"
  "startswith (commit_endpoint sha) ''commits/''"
  "\<not> startswith (commit_endpoint sha) ''contents/''"
  by (simp_all add: re_defs sample_sha_def startswith_def commit_endpoint_def)

lemma mock_commit_fetch:
  assumes "map_of (sample_analysis E) ''target_commit_sha'' = Some s"
    and "map_of (sample_analysis E) ''commit_author'' = Some a"
    and "map_of (sample_analysis E) ''commit_date'' = Some d"
  shows "github_api_request E (commit_endpoint sha) token owner repo True
         = ([], Inr (True, JObj [(''sha'', s),
                                 (''author'', JObj [(''login'', a)]),
                                 (''commit'', JObj [(''author'', JObj [(''date'', d)])])]))"
  using assms by (simp add: github_api_request_def sample_formats mock_commit_def io_defs)

lemma verify_commit_offline:
  assumes fixture: "sample_analysis E = SAMPLE_ANALYSIS"
    and sha: "map_of m ''target_commit_sha'' = Some (JStr s)"
    and format: "sha_re_match s"
    and author: "map_of m ''commit_author'' = Some (JStr a)"
    and date: "map_of m ''commit_date'' = Some (JStr ''2025-09-10'')"
  shows "verify_commit_data E CONFIG (JObj m) token owner repo True
         = (if a = ''example-author'' then ([], Inr True)
            else ([AuthorMismatch (JStr a) (JStr ''example-author'')], Inr False))"
proof -
  have f: "github_api_request E (commit_endpoint s) token owner repo True
         = ([], Inr (True, JObj [(''sha'', JStr sample_sha),
                                 (''author'', JObj [(''login'', JStr ''example-author'')]),
                                 (''commit'', JObj [(''author'', JObj [(''date'', JStr ''2025-09-10'')])])]))"
    by (rule mock_commit_fetch) (simp_all add: fixture sample_entries)
  show ?thesis
    by (simp add: verify_commit_data_def sha format author date f sample_formats actual_author_def
          io_defs CONFIG_fields)
qed

lemma sample_changes_entry:
  "map_of SAMPLE_ANALYSIS ''parameter_changes'' = Some sample_changes"
  by (simp add: SAMPLE_ANALYSIS_def sample_changes_def)

lemma sample_changes_pass:
  "check_required sample_changes (REQUIRED_PARAMETERS CONFIG) = ([], Inr True)"
  "check_exact sample_changes (EXPECTED_VALUES CONFIG) = ([], Inr True)"
  by code_simp+

lemma verify_parameters_offline:
  assumes "map_of m ''parameter_changes'' = Some sample_changes"
  shows "verify_parameter_changes CONFIG (JObj m) = ([], Inr True)"
  using assms
  by (simp add: verify_parameter_changes_def sample_changes_pass io_defs CONFIG_fields(4))

lemma mock_issue_facts:
  "issue_text mock_issue_101 = Inr text_101"
  "issue_text mock_issue_102 = Inr text_102"
  "has_keyword (KEYWORDS CONFIG) text_101"
  "has_keyword (KEYWORDS CONFIG) text_102"
  "py_in ''pull_request'' mock_issue_101 = Inr False"
  "py_in ''pull_request'' mock_issue_102 = Inr False"
  "py_get mock_issue_101 ''number'' JNull = Inr (JInt 101)"
  "py_get mock_issue_102 ''number'' JNull = Inr (JInt 102)"
  "truthy mock_issue_101"
  "truthy mock_issue_102"
  "lower (INCLUDE_PR CONFIG) \<noteq> ''true''"
  "lower (ALLOW_EMPTY_ISSUES CONFIG) \<noteq> ''true''"
  "lower (STRICT_ISSUE_MATCH CONFIG) = ''true''"
  "lower (VERIFY_COMMIT CONFIG) = ''true''"
  "lower (VERIFY_PARAMETERS CONFIG) = ''true''"
  "lower (VERIFY_ISSUES CONFIG) = ''true''"
  by code_simp+

lemma mock_endpoints:
  "startswith (page_endpoint page) ''issues?''"
  "\<not> startswith (page_endpoint page) ''contents/''"
  "\<not> startswith (page_endpoint page) ''commits/''"
  "startswith (contents_endpoint name) ''contents/''"
  "issue_endpoint (JInt 101) = ''issues/101''"
  "issue_endpoint (JInt 102) = ''issues/102''"
  by (simp_all add: page_endpoint_def contents_endpoint_def issue_endpoint_def startswith_def
        py_str.simps show_int_def show_nat.simps)

lemma mock_issue_fetch:
  "github_api_request E ''issues/101'' token owner repo True = ([], Inr (True, mock_issue_101))"
  "github_api_request E ''issues/102'' token owner repo True = ([], Inr (True, mock_issue_102))"
proof -
  have p: "py_int (last_segment ''issues/101'') = Some 101"
          "py_int (last_segment ''issues/102'') = Some 102"
    by code_simp+
  have s: "startswith ''issues/101'' ''issues/''" "\<not> startswith ''issues/101'' ''issues?''"
          "\<not> startswith ''issues/101'' ''contents/''" "\<not> startswith ''issues/101'' ''commits/''"
          "startswith ''issues/102'' ''issues/''" "\<not> startswith ''issues/102'' ''issues?''"
          "\<not> startswith ''issues/102'' ''contents/''" "\<not> startswith ''issues/102'' ''commits/''"
    by code_simp+
  show "github_api_request E ''issues/101'' token owner repo True = ([], Inr (True, mock_issue_101))"
    by (simp only: github_api_request_def p s) (simp add: io_defs)
  show "github_api_request E ''issues/102'' token owner repo True = ([], Inr (True, mock_issue_102))"
    by (simp only: github_api_request_def p s) (simp add: io_defs)
qed

lemma mock_issue_listing:
  "github_api_request E (page_endpoint page) token owner repo True
   = ([], Inr (True, JList [mock_issue_101, mock_issue_102]))"
  by (simp add: github_api_request_def mock_endpoints io_defs)

lemma scan_mock_page:
  assumes "KEYWORDS cfg = KEYWORDS CONFIG"
  shows "scan_items cfg [mock_issue_101, mock_issue_102] issues
         = Inr (insert (HNum 102) (insert (HNum 101) issues))"
  by (simp add: scan_items.simps mock_issue_facts err_bind_def assms)

lemma get_relevant_issues_mock:
  assumes "KEYWORDS cfg = KEYWORDS CONFIG"
  shows "get_relevant_issues E cfg token owner repo True = Some ([], Inr {HNum 101, HNum 102})"
  unfolding get_relevant_issues_def
  by (subst issues_loop.simps)
     (simp add: mock_issue_listing scan_mock_page [OF assms] short_page_def err_bind_def
        insert_commute mock_issue_facts)

lemma check_issues_sample:
  assumes "KEYWORDS cfg = KEYWORDS CONFIG"
  shows "check_issues E cfg token owner repo True [JInt 101, JInt 102] = ([], Inr True)"
    and "check_issues E cfg token owner repo True [JInt 101] = ([], Inr True)"
  by (simp_all add: check_issues.simps mock_endpoints mock_issue_fetch mock_issue_facts io_defs
        assms)

lemma verify_issues_offline:
  assumes "map_of m ''related_issue_number_list'' = Some (JList [JInt 101, JInt 102])"
  shows "verify_issues E CONFIG (JObj m) token owner repo True = Some ([], Inr True)"
proof -
  have s: "py_set [JInt 101, JInt 102] = Inr {HNum 101, HNum 102}"
    by (simp add: py_set.simps err_bind_def insert_commute)
  show ?thesis
    by (simp add: verify_issues_def assms s check_issues_sample [OF refl]
          get_relevant_issues_mock [OF refl]
          io_opt_bind_def report_mismatch_def io_defs mock_issue_facts)
qed

lemma load_offline:
  assumes "codec_roundtrip E (JObj (sample_analysis E))"
    and "ANALYSIS_FILE_FORMAT cfg = ''json''"
  shows "load_analysis_results E cfg token owner repo True = ([], Inr (JObj (sample_analysis E)))"
  using assms
  by (auto simp add: load_analysis_results_def github_api_request_def mock_endpoints
        decode_analysis_def codec_roundtrip_def io_defs split: option.splits)

lemma run_validators_offline:
  assumes fixture: "sample_analysis E = SAMPLE_ANALYSIS"
    and sha: "map_of m ''target_commit_sha'' = Some (JStr sample_sha)"
    and author: "map_of m ''commit_author'' = Some (JStr a)"
    and date: "map_of m ''commit_date'' = Some (JStr ''2025-09-10'')"
    and changes: "map_of m ''parameter_changes'' = Some sample_changes"
    and issues: "map_of m ''related_issue_number_list'' = Some (JList [JInt 101, JInt 102])"
  shows "run_validators E CONFIG (JObj m) token owner repo True
         = (if a = ''example-author'' then Some ([], Inr 0)
            else Some ([AuthorMismatch (JStr a) (JStr ''example-author'')], Inr 1))"
  by (simp add: run_validators_def stage_def mock_issue_facts
        verify_commit_offline [OF fixture sha sample_formats(1) author date]
        verify_parameters_offline [OF changes] verify_issues_offline [OF issues]
        io_opt_bind_def io_defs)

subsection \<open>The bundled sample\<close>

text \<open>
  C1. Offline (the \<open>--mock\<close> flag is given, or no token is set and the driver switches to
  mock mode), with the configuration of the file (all three validators enabled) and the
  bundled fixture, the driver loads the sample document and exits with code 0, and each of
  the three validators returns \<open>True\<close> on the sample document without a diagnostic. The
  library codecs are assumed to give the fixture back: decoding the base64 of the
  serialised fixture and parsing it yields the fixture.
\<close>

theorem main_offline_sample_passes:
  assumes fixture: "sample_analysis E = SAMPLE_ANALYSIS"
    and codec: "codec_roundtrip E (JObj SAMPLE_ANALYSIS)"
    and offline: "mock_flag \<or> getenv E ''MCP_GITHUB_TOKEN'' = None
                  \<or> getenv E ''MCP_GITHUB_TOKEN'' = Some []"
  shows "main E CONFIG mock_flag = Some (if mock_flag then [] else [NoTokenWarning], Inr 0)
       \<and> verify_commit_data E CONFIG (JObj SAMPLE_ANALYSIS) token owner repo True = ([], Inr True)
       \<and> verify_parameter_changes CONFIG (JObj SAMPLE_ANALYSIS) = ([], Inr True)
       \<and> verify_issues E CONFIG (JObj SAMPLE_ANALYSIS) token owner repo True = Some ([], Inr True)"
proof -
  note entries = sample_entries sample_changes_entry
  have load: "load_analysis_results E CONFIG t ow r True = ([], Inr (JObj SAMPLE_ANALYSIS))" for t ow r
    using load_offline [of E CONFIG t ow r] fixture codec by (simp add: CONFIG_fields)
  have run: "run_validators E CONFIG (JObj SAMPLE_ANALYSIS) t ow r True = Some ([], Inr 0)" for t ow r
    using run_validators_offline [OF fixture entries(1,2,3) entries(6) entries(4)]
    by simp
  note nonempty = sample_entries(5)
  have "main E CONFIG mock_flag = Some (if mock_flag then [] else [NoTokenWarning], Inr 0)"
    using offline
    by (auto simp add: main_def get_github_credentials_def CONFIG_fields load run nonempty
          io_opt_bind_def io_defs)
  moreover have "verify_commit_data E CONFIG (JObj SAMPLE_ANALYSIS) token owner repo True = ([], Inr True)"
    using verify_commit_offline [OF fixture entries(1) sample_formats(1) entries(2,3)] by simp
  moreover have "verify_parameter_changes CONFIG (JObj SAMPLE_ANALYSIS) = ([], Inr True)"
    by (rule verify_parameters_offline [OF entries(6)])
  moreover have "verify_issues E CONFIG (JObj SAMPLE_ANALYSIS) token owner repo True = Some ([], Inr True)"
    by (rule verify_issues_offline [OF entries(4)])
  ultimately show ?thesis by blast
qed

lemma offline_env_fields:
  "sample_analysis (offline_env s) = s"
  "getenv (offline_env s) v = None"
  "requests_available (offline_env s) = False"
  "codec_roundtrip (offline_env s) (JObj s)"
  by (simp_all add: offline_env_def codec_roundtrip_def)

theorem main_offline_sample_passes_witness:
  "main (offline_env SAMPLE_ANALYSIS) CONFIG True = Some ([], Inr 0)
   \<and> main (offline_env SAMPLE_ANALYSIS) CONFIG False = Some ([NoTokenWarning], Inr 0)"
  using main_offline_sample_passes [of "offline_env SAMPLE_ANALYSIS" True]
    main_offline_sample_passes [of "offline_env SAMPLE_ANALYSIS" False]
  by (simp add: offline_env_fields)

subsection \<open>An altered author\<close>

lemma altered_entries:
  "map_of (with_entry SAMPLE_ANALYSIS ''commit_author'' v) ''target_commit_sha'' = Some (JStr sample_sha)"
  "map_of (with_entry SAMPLE_ANALYSIS ''commit_author'' v) ''commit_author'' = Some v"
  "map_of (with_entry SAMPLE_ANALYSIS ''commit_author'' v) ''commit_date'' = Some (JStr ''2025-09-10'')"
  "map_of (with_entry SAMPLE_ANALYSIS ''commit_author'' v) ''parameter_changes'' = Some sample_changes"
  "map_of (with_entry SAMPLE_ANALYSIS ''commit_author'' v) ''related_issue_number_list''
     = Some (JList [JInt 101, JInt 102])"
  "with_entry SAMPLE_ANALYSIS ''commit_author'' v \<noteq> []"
  by (simp_all add: with_entry_def SAMPLE_ANALYSIS_def sample_sha_def sample_changes_def)

text \<open>
  C2, as stated, fails: the mock commit answer takes its author from the same dictionary
  \<open>SAMPLE_ANALYSIS\<close> the document is loaded from, so after altering \<open>commit_author\<close> in
  the bundled sample to \<open>mallory\<close> the offline run still passes every check and exits
  with code 0.
\<close>

theorem altered_fixture_still_passes:
  "main (offline_env (with_entry SAMPLE_ANALYSIS ''commit_author'' (JStr ''mallory''))) CONFIG True
   = Some ([], Inr 0)"
proof -
  let ?s = "with_entry SAMPLE_ANALYSIS ''commit_author'' (JStr ''mallory'')"
  let ?E = "offline_env ?s"
  have load: "load_analysis_results ?E CONFIG None ''example-owner'' ''example-repo'' True = ([], Inr (JObj ?s))"
    using load_offline [of ?E CONFIG] by (simp add: offline_env_fields CONFIG_fields)
  have fetch: "github_api_request ?E (commit_endpoint sample_sha) None ''example-owner'' ''example-repo'' True
         = ([], Inr (True, JObj [(''sha'', JStr sample_sha),
                                 (''author'', JObj [(''login'', JStr ''mallory'')]),
                                 (''commit'', JObj [(''author'', JObj [(''date'', JStr ''2025-09-10'')])])]))"
    by (rule mock_commit_fetch) (simp_all add: offline_env_fields altered_entries)
  have commit: "verify_commit_data ?E CONFIG (JObj ?s) None ''example-owner'' ''example-repo'' True = ([], Inr True)"
    by (simp add: verify_commit_data_def altered_entries fetch sample_formats actual_author_def
          io_defs CONFIG_fields)
  show ?thesis
    by (simp add: main_def get_github_credentials_def offline_env_fields load commit altered_entries
          run_validators_def stage_def mock_issue_facts
          verify_parameters_offline [OF altered_entries(4)]
          verify_issues_offline [OF altered_entries(5)]
          io_opt_bind_def io_defs)
qed

text \<open>
  C2, amended. When the fixture is the bundled one and only the document handed to the
  validators has its \<open>commit_author\<close> altered to a string other than the fixture's
  author, the commit validator reports the mismatch and returns \<open>False\<close>, the parameter
  and the issue validator each return \<open>True\<close>, and the driver's three stages give exit
  code 1.
\<close>

theorem altered_document_fails_commit_check:
  assumes fixture: "sample_analysis E = SAMPLE_ANALYSIS"
    and unrelated: "a \<noteq> ''example-author''"
  shows "verify_commit_data E CONFIG
           (JObj (with_entry SAMPLE_ANALYSIS ''commit_author'' (JStr a))) token owner repo True
         = ([AuthorMismatch (JStr a) (JStr ''example-author'')], Inr False)
       \<and> verify_parameter_changes CONFIG
           (JObj (with_entry SAMPLE_ANALYSIS ''commit_author'' (JStr a))) = ([], Inr True)
       \<and> verify_issues E CONFIG
           (JObj (with_entry SAMPLE_ANALYSIS ''commit_author'' (JStr a))) token owner repo True
         = Some ([], Inr True)
       \<and> run_validators E CONFIG
           (JObj (with_entry SAMPLE_ANALYSIS ''commit_author'' (JStr a))) token owner repo True
         = Some ([AuthorMismatch (JStr a) (JStr ''example-author'')], Inr 1)"
proof -
  let ?m = "with_entry SAMPLE_ANALYSIS ''commit_author'' (JStr a)"
  note e = altered_entries [of "JStr a"]
  have "verify_commit_data E CONFIG (JObj ?m) token owner repo True
        = ([AuthorMismatch (JStr a) (JStr ''example-author'')], Inr False)"
    using unrelated by (simp add: verify_commit_offline [OF fixture e(1) sample_formats(1) e(2,3)])
  moreover have "verify_parameter_changes CONFIG (JObj ?m) = ([], Inr True)"
    by (rule verify_parameters_offline [OF e(4)])
  moreover have "verify_issues E CONFIG (JObj ?m) token owner repo True = Some ([], Inr True)"
    by (rule verify_issues_offline [OF e(5)])
  moreover have "run_validators E CONFIG (JObj ?m) token owner repo True
        = Some ([AuthorMismatch (JStr a) (JStr ''example-author'')], Inr 1)"
    using unrelated by (simp add: run_validators_offline [OF fixture e(1,2,3,4,5)])
  ultimately show ?thesis by blast
qed

theorem altered_document_fails_commit_check_witness:
  "verify_commit_data (offline_env SAMPLE_ANALYSIS) CONFIG
     (JObj (with_entry SAMPLE_ANALYSIS ''commit_author'' (JStr ''mallory'')))
     None ''example-owner'' ''example-repo'' True
   = ([AuthorMismatch (JStr ''mallory'') (JStr ''example-author'')], Inr False)
   \<and> run_validators (offline_env SAMPLE_ANALYSIS) CONFIG
     (JObj (with_entry SAMPLE_ANALYSIS ''commit_author'' (JStr ''mallory'')))
     None ''example-owner'' ''example-repo'' True
   = Some ([AuthorMismatch (JStr ''mallory'') (JStr ''example-author'')], Inr 1)"
  using altered_document_fails_commit_check
          [of "offline_env SAMPLE_ANALYSIS" "''mallory''" None "''example-owner''" "''example-repo''"]
  by (simp add: offline_env_fields)

section \<open>The commit SHA format\<close>

text \<open>
  C4. The claim that every string with an extra character is rejected fails on the code:
  \<open>$\<close> also matches just before a final newline, so forty hexadecimal characters followed
  by a newline (forty-one characters) pass the format check, and offline the commit
  validator then returns \<open>True\<close> for a document with such a SHA.
\<close>

theorem sha_with_trailing_newline_accepted:
  assumes hex: "length h = 40" "list_all is_hex h"
    and fixture: "sample_analysis E = SAMPLE_ANALYSIS"
  shows "sha_re_match (h @ [newline])
       \<and> length (h @ [newline]) = 41
       \<and> verify_commit_data E CONFIG
            (JObj (with_entry SAMPLE_ANALYSIS ''target_commit_sha'' (JStr (h @ [newline]))))
            token owner repo True = ([], Inr True)"
proof -
  have m: "sha_re_match (h @ [newline])"
    using hex by (simp add: sha_re_match_def at_end_def)
  have e:
    "map_of (with_entry SAMPLE_ANALYSIS ''target_commit_sha'' (JStr (h @ [newline])))
       ''target_commit_sha'' = Some (JStr (h @ [newline]))"
    "map_of (with_entry SAMPLE_ANALYSIS ''target_commit_sha'' (JStr (h @ [newline])))
       ''commit_author'' = Some (JStr ''example-author'')"
    "map_of (with_entry SAMPLE_ANALYSIS ''target_commit_sha'' (JStr (h @ [newline])))
       ''commit_date'' = Some (JStr ''2025-09-10'')"
    by (simp_all add: with_entry_def SAMPLE_ANALYSIS_def)
  show ?thesis
    using m hex verify_commit_offline [OF fixture e(1) m e(2,3)] by simp
qed

theorem sha_with_trailing_newline_accepted_witness:
  "sha_re_match (sample_sha @ [newline])
   \<and> length (sample_sha @ [newline]) = 41
   \<and> verify_commit_data (offline_env SAMPLE_ANALYSIS) CONFIG
        (JObj (with_entry SAMPLE_ANALYSIS ''target_commit_sha'' (JStr (sample_sha @ [newline]))))
        None ''example-owner'' ''example-repo'' True = ([], Inr True)"
proof -
  have "length sample_sha = 40" "list_all is_hex sample_sha"
    by code_simp+
  then show ?thesis
    by (rule sha_with_trailing_newline_accepted) (simp add: offline_env_fields)
qed

section \<open>The parameter validator and its modes\<close>

text \<open>
  The statements are about documents whose \<open>parameter_changes\<close> is a dict of dicts, as
  the data model has it. \<open>param_field\<close> is then the value the validator reads with
  \<open>param_changes.get(param, {}).get(field)\<close>, \<open>None\<close> when it is missing.
\<close>

lemma objects_only_entry:
  "objects_only pc \<Longrightarrow> map_of pc p = Some v \<Longrightarrow> \<exists>c. v = JObj c"
  by (induction pc) (auto simp: objects_only_def split: json.splits if_splits)

lemma entry_get:
  assumes "objects_only pc"
  shows "err_bind (py_get (JObj pc) p (JObj [])) (\<lambda>actual. py_get actual field JNull)
         = Inr (param_field pc p field)"
proof (cases "map_of pc p")
  case None
  then show ?thesis by (simp add: err_bind_def param_field_def)
next
  case (Some v)
  with assms obtain c where "v = JObj c" using objects_only_entry by blast
  with Some show ?thesis by (simp add: err_bind_def param_field_def split: option.splits)
qed

lemma entry_gets:
  assumes "objects_only pc"
  shows "\<exists>c. py_get (JObj pc) p (JObj []) = Inr (JObj c)
           \<and> py_get (JObj c) ''before'' JNull = Inr (param_field pc p ''before'')
           \<and> py_get (JObj c) ''after'' JNull = Inr (param_field pc p ''after'')"
proof (cases "map_of pc p")
  case None
  then show ?thesis by (simp add: param_field_def)
next
  case (Some v)
  with assms obtain c where "v = JObj c" using objects_only_entry by blast
  with Some show ?thesis by (simp add: param_field_def split: option.splits)
qed

lemma check_fields_result:
  "snd (check_fields param (JObj c) fs) = Inr (list_all (\<lambda>field. map_of c field \<noteq> None) fs)"
  by (induction fs) (auto simp: check_fields.simps io_defs)

lemma check_required_result:
  assumes "objects_only pc"
  shows "snd (check_required (JObj pc) req) = Inr (list_all (has_fields pc) req)"
proof (induction req)
  case Nil
  then show ?case by (simp add: check_required.simps io_defs)
next
  case (Cons p req)
  show ?case
  proof (cases "map_of pc p")
    case None
    then show ?thesis by (simp add: check_required.simps io_defs has_fields_def)
  next
    case (Some v)
    with assms obtain c where v: "v = JObj c" using objects_only_entry by blast
    have f: "snd (check_fields p (JObj c) [''before'', ''after'', ''line_number''])
             = Inr (has_fields pc p)"
      using Some v by (simp add: check_fields_result has_fields_def)
    show ?thesis
      using Some v f Cons.IH
      by (cases "check_fields p (JObj c) [''before'', ''after'', ''line_number'']")
         (auto simp: check_required.simps io_defs split: prod.splits)
  qed
qed

lemma check_exact_result:
  assumes "objects_only pc"
  shows "snd (check_exact (JObj pc) ev)
         = Inr (list_all (\<lambda>(p, eb, ea). py_eq (param_field pc p ''before'') eb
                                        \<and> py_eq (param_field pc p ''after'') ea) ev)"
proof (induction ev)
  case Nil
  then show ?case by (simp add: check_exact.simps io_defs)
next
  case (Cons x ev)
  obtain p eb ea where x: "x = (p, eb, ea)" by (cases x) auto
  from entry_gets [OF assms, of p] obtain c where
    c: "py_get (JObj pc) p (JObj []) = Inr (JObj c)"
       "py_get (JObj c) ''before'' JNull = Inr (param_field pc p ''before'')"
       "py_get (JObj c) ''after'' JNull = Inr (param_field pc p ''after'')"
    by blast
  show ?case
    using Cons.IH c unfolding x
    by (cases "check_exact (JObj pc) ev")
       (auto simp: check_exact.simps io_defs simp del: py_get.simps)
qed

lemma check_range_result:
  assumes "objects_only pc"
    and "list_all (\<lambda>(p, lo, hi). param_field pc p ''before'' = JNull
                               \<or> num_val (param_field pc p ''before'') \<noteq> None) rc"
  shows "snd (check_range (JObj pc) rc)
         = Inr (list_all (\<lambda>(p, lo, hi). case num_val (param_field pc p ''before'') of
                                           None \<Rightarrow> False
                                         | Some v \<Rightarrow> lo \<le> v \<and> v \<le> hi) rc)"
  using assms(2)
proof (induction rc)
  case Nil
  then show ?case by (simp add: check_range.simps io_defs)
next
  case (Cons x rc)
  obtain p lo hi where x: "x = (p, lo, hi)" by (cases x) auto
  from entry_gets [OF assms(1), of p] obtain c where
    c: "py_get (JObj pc) p (JObj []) = Inr (JObj c)"
       "py_get (JObj c) ''before'' JNull = Inr (param_field pc p ''before'')"
    by blast
  show ?case
    using Cons c unfolding x
    by (cases "check_range (JObj pc) rc")
       (auto simp: check_range.simps in_range_def io_defs simp del: py_get.simps
             split: option.splits)
qed

lemma changes_with_shape:
  "objects_only (changes_with b a)"
  "py_get (JObj [(''parameter_changes'', JObj (changes_with b a))]) ''parameter_changes'' (JObj [])
   = Inr (JObj (changes_with b a))"
  "param_field (changes_with b a) ''micro_batch_size_per_device_for_update'' ''before'' = b"
  "param_field (changes_with b a) ''micro_batch_size_per_device_for_update'' ''after'' = a"
  "param_field (changes_with b a) ''micro_batch_size_per_device_for_experience'' ''before'' = JInt 8"
  "param_field (changes_with b a) ''micro_batch_size_per_device_for_experience'' ''after'' = JInt 4"
  "has_fields (changes_with b a) ''micro_batch_size_per_device_for_update''"
  "has_fields (changes_with b a) ''micro_batch_size_per_device_for_experience''"
  by (simp_all add: objects_only_def changes_with_def param_field_def has_fields_def)

lemma range_config_fields:
  "VALIDATION_MODE range_config = ''range''"
  "REQUIRED_PARAMETERS range_config = REQUIRED_PARAMETERS CONFIG"
  "RANGE_CONFIG range_config = [(''micro_batch_size_per_device_for_update'', 1, 16)]"
  by (simp_all add: range_config_def CONFIG_def)

text \<open>
  C5, as stated, fails: the comparison is Python's \<open>!=\<close>, which compares numbers by
  value across \<open>int\<close>, \<open>float\<close> and \<open>bool\<close>. With the expectation \<open>4\<close> (an integer) a
  document whose \<open>before\<close> is the float \<open>4.0\<close> passes in exact mode.
\<close>

theorem float_satisfies_integer_expectation:
  "verify_parameter_changes CONFIG
     (JObj [(''parameter_changes'', JObj (changes_with (JFloat 4) (JInt 2)))]) = ([], Inr True)"
  by code_simp

text \<open>
  C5, amended. In exact mode, on a document whose changes are dicts, the validator returns
  \<open>True\<close> exactly when every required parameter is recorded with its three fields and,
  for every parameter of the expected values, the document's \<open>before\<close> and \<open>after\<close> equal
  the expected ones under Python's \<open>==\<close> (numbers by value, whatever their numeric
  type); it returns \<open>False\<close> on any disagreement under that equality.
\<close>

theorem exact_mode_python_equality:
  assumes mode: "VALIDATION_MODE cfg = ''exact''"
    and changes: "py_get (JObj doc) ''parameter_changes'' (JObj []) = Inr (JObj pc)"
    and shape: "objects_only pc"
  shows "snd (verify_parameter_changes cfg (JObj doc))
         = Inr (list_all (has_fields pc) (REQUIRED_PARAMETERS cfg)
                \<and> list_all (\<lambda>(p, eb, ea). py_eq (param_field pc p ''before'') eb
                                            \<and> py_eq (param_field pc p ''after'') ea)
                     (EXPECTED_VALUES cfg))"
  using check_required_result [OF shape, of "REQUIRED_PARAMETERS cfg"]
    check_exact_result [OF shape, of "EXPECTED_VALUES cfg"] changes mode
  by (cases "check_required (JObj pc) (REQUIRED_PARAMETERS cfg)";
      cases "check_exact (JObj pc) (EXPECTED_VALUES cfg)")
     (auto simp: verify_parameter_changes_def io_defs simp del: py_get.simps)

theorem exact_mode_python_equality_witness:
  "snd (verify_parameter_changes CONFIG
          (JObj [(''parameter_changes'', JObj (changes_with (JInt 4) (JInt 2)))])) = Inr True
   \<and> snd (verify_parameter_changes CONFIG
          (JObj [(''parameter_changes'', JObj (changes_with (JInt 4) (JInt 3)))])) = Inr False
   \<and> snd (verify_parameter_changes CONFIG
          (JObj [(''parameter_changes'', JObj (changes_with (JFloat 4) (JFloat 2)))])) = Inr True"
  using exact_mode_python_equality [OF CONFIG_fields(4) changes_with_shape(2) changes_with_shape(1),
          of "JInt 4" "JInt 2"]
    exact_mode_python_equality [OF CONFIG_fields(4) changes_with_shape(2) changes_with_shape(1),
          of "JInt 4" "JInt 3"]
    exact_mode_python_equality [OF CONFIG_fields(4) changes_with_shape(2) changes_with_shape(1),
          of "JFloat 4" "JFloat 2"]
  by (simp add: CONFIG_fields changes_with_shape)

text \<open>
  C8. In range mode, on a document whose changes are dicts and whose \<open>before\<close> values of
  the ranged parameters are numbers or missing, the validator returns \<open>True\<close> exactly when
  the completeness pass succeeds and every ranged parameter has a \<open>before\<close> value \<open>v\<close> with
  \<open>min_before \<le> v \<le> max_before\<close>: both bounds are inclusive, and a missing \<open>before\<close>
  or a value below \<open>min_before\<close> or above \<open>max_before\<close> gives \<open>False\<close>.
\<close>

theorem range_mode_inclusive_bounds:
  assumes mode: "VALIDATION_MODE cfg = ''range''"
    and changes: "py_get (JObj doc) ''parameter_changes'' (JObj []) = Inr (JObj pc)"
    and shape: "objects_only pc"
    and numbers: "list_all (\<lambda>(p, lo, hi). param_field pc p ''before'' = JNull
                               \<or> num_val (param_field pc p ''before'') \<noteq> None) (RANGE_CONFIG cfg)"
  shows "snd (verify_parameter_changes cfg (JObj doc))
         = Inr (list_all (has_fields pc) (REQUIRED_PARAMETERS cfg)
                \<and> list_all (\<lambda>(p, min_before, max_before).
                               case num_val (param_field pc p ''before'') of
                                 None \<Rightarrow> False
                               | Some v \<Rightarrow> min_before \<le> v \<and> v \<le> max_before)
                     (RANGE_CONFIG cfg))"
  using check_required_result [OF shape, of "REQUIRED_PARAMETERS cfg"]
    check_range_result [OF shape numbers] changes mode
  by (cases "check_required (JObj pc) (REQUIRED_PARAMETERS cfg)";
      cases "check_range (JObj pc) (RANGE_CONFIG cfg)")
     (auto simp: verify_parameter_changes_def io_defs simp del: py_get.simps)

theorem range_mode_inclusive_bounds_witness:
  "snd (verify_parameter_changes range_config
          (JObj [(''parameter_changes'', JObj (changes_with (JInt 1) (JInt 2)))])) = Inr True
   \<and> snd (verify_parameter_changes range_config
          (JObj [(''parameter_changes'', JObj (changes_with (JInt 16) (JInt 2)))])) = Inr True
   \<and> snd (verify_parameter_changes range_config
          (JObj [(''parameter_changes'', JObj (changes_with (JInt 0) (JInt 2)))])) = Inr False
   \<and> snd (verify_parameter_changes range_config
          (JObj [(''parameter_changes'', JObj (changes_with (JInt 17) (JInt 2)))])) = Inr False
   \<and> snd (verify_parameter_changes range_config
          (JObj [(''parameter_changes'', JObj (changes_with JNull (JInt 2)))])) = Inr False"
proof -
  note r = range_mode_inclusive_bounds [OF range_config_fields(1) changes_with_shape(2)
             changes_with_shape(1)]
  show ?thesis
    using r [of "JInt 1" "JInt 2"] r [of "JInt 16" "JInt 2"] r [of "JInt 0" "JInt 2"]
      r [of "JInt 17" "JInt 2"] r [of JNull "JInt 2"]
    by (simp add: range_config_fields CONFIG_fields changes_with_shape)
qed

section \<open>The issue validator: reconciliation of the two sets\<close>

lemma io_bind_returns:
  assumes "io_bind m f = (lg, Inr y)"
  obtains lg1 x lg2 where "m = (lg1, Inr x)" "f x = (lg2, Inr y)" "lg = lg1 @ lg2"
  using assms by (auto simp: io_bind_def split: prod.splits sum.splits)

lemma check_issues_passed:
  assumes "check_issues E cfg token owner repo mock il = (lg, Inr True)"
  shows "list_all (\<lambda>x. is_int x \<and> 0 < int_val x) il"
  using assms
proof (induction il arbitrary: lg)
  case Nil
  then show ?case by simp
next
  case (Cons x il)
  from Cons.prems have ok: "is_int x \<and> 0 < int_val x"
    by (auto simp: check_issues.simps print_err_def split: if_splits)
  with Cons.prems have
    "io_bind (github_api_request E (issue_endpoint x) token owner repo mock) (\<lambda>r.
          if \<not> fst r \<or> \<not> truthy (snd r) then print_err (IssueNotFound x) False
          else
            io_bind (lift (issue_text (snd r))) (\<lambda>text.
              if \<not> has_keyword (KEYWORDS cfg) text
              then print_err (IssueMissingKeywords x) False
              else check_issues E cfg token owner repo mock il)) = (lg, Inr True)"
    by (simp add: check_issues.simps)
  then obtain lg1 r lg2 where
    r: "(if \<not> fst r \<or> \<not> truthy (snd r) then print_err (IssueNotFound x) False
          else
            io_bind (lift (issue_text (snd r))) (\<lambda>text.
              if \<not> has_keyword (KEYWORDS cfg) text
              then print_err (IssueMissingKeywords x) False
              else check_issues E cfg token owner repo mock il)) = (lg2, Inr True)"
    by (rule io_bind_returns)
  then have "io_bind (lift (issue_text (snd r))) (\<lambda>text.
              if \<not> has_keyword (KEYWORDS cfg) text
              then print_err (IssueMissingKeywords x) False
              else check_issues E cfg token owner repo mock il) = (lg2, Inr True)"
    by (auto simp: print_err_def split: if_splits)
  then obtain lg3 t lg4 where
    "(if \<not> has_keyword (KEYWORDS cfg) t
              then print_err (IssueMissingKeywords x) False
              else check_issues E cfg token owner repo mock il) = (lg4, Inr True)"
    by (rule io_bind_returns)
  then have "check_issues E cfg token owner repo mock il = (lg4, Inr True)"
    by (auto simp: print_err_def split: if_splits)
  with Cons.IH ok show ?case by simp
qed

lemma py_set_ints:
  "list_all (\<lambda>x. is_int x \<and> 0 < int_val x) il \<Longrightarrow> py_set il = Inr (issue_key ` set il)"
proof (induction il)
  case Nil
  then show ?case by (simp add: py_set.simps)
next
  case (Cons x il)
  then have "is_int x" by simp
  then have "to_key x = Inr (issue_key x)"
    by (cases x) (auto simp: issue_key_def)
  with Cons show ?case by (simp add: py_set.simps err_bind_def)
qed

lemma lenient_config_fields:
  "KEYWORDS lenient_config = KEYWORDS CONFIG"
  "INCLUDE_PR lenient_config = INCLUDE_PR CONFIG"
  "lower (STRICT_ISSUE_MATCH lenient_config) \<noteq> ''true''"
  "lower (ALLOW_EMPTY_ISSUES lenient_config) \<noteq> ''true''"
  by (simp_all add: lenient_config_def CONFIG_def lower_def lower_char_def)

text \<open>
  C7. Let every listed issue have passed the per-issue content check, and let the
  pagination have returned the expected set. When the set of the document's issue numbers
  (duplicates collapse in \<open>set(issue_list)\<close>) differs from the expected set, the validator
  reports the symmetric difference (the missing issues, the extra issues, at least one of
  the two lines) and returns \<open>False\<close> when \<open>STRICT_ISSUE_MATCH\<close> reads \<open>true\<close>, \<open>True\<close>
  otherwise.
\<close>

theorem issue_set_mismatch:
  assumes list: "py_get results ''related_issue_number_list'' (JList []) = Inr (JList il)"
    and nonempty: "il \<noteq> [] \<or> lower (ALLOW_EMPTY_ISSUES cfg) = ''true''"
    and content: "check_issues E cfg token owner repo mock il = (lg1, Inr True)"
    and expected: "get_relevant_issues E cfg token owner repo mock = Some (lg2, Inr expected)"
    and differ: "issue_key ` set il \<noteq> expected"
  shows "verify_issues E cfg results token owner repo mock
         = Some (lg1 @ lg2 @ mismatch_report (issue_key ` set il) expected,
                 Inr (lower (STRICT_ISSUE_MATCH cfg) \<noteq> ''true''))
       \<and> mismatch_report (issue_key ` set il) expected \<noteq> []"
proof -
  have s: "py_set il = Inr (issue_key ` set il)"
    using check_issues_passed [OF content] by (rule py_set_ints)
  have r: "mismatch_report (issue_key ` set il) expected \<noteq> []"
    using differ by (auto simp: mismatch_report_def)
  have "verify_issues E cfg results token owner repo mock
         = Some (lg1 @ lg2 @ mismatch_report (issue_key ` set il) expected,
                 Inr (lower (STRICT_ISSUE_MATCH cfg) \<noteq> ''true''))"
    using list nonempty content expected differ s
    by (auto simp: verify_issues_def io_opt_bind_def report_mismatch_def mismatch_report_def
          lift_def ret_def Let_def)
  with r show ?thesis by simp
qed

theorem issue_set_mismatch_witness:
  "verify_issues (offline_env SAMPLE_ANALYSIS) CONFIG
     (JObj [(''related_issue_number_list'', JList [JInt 101])])
     None ''example-owner'' ''example-repo'' True
   = Some ([MissingIssues {HNum 102}], Inr False)
   \<and> verify_issues (offline_env SAMPLE_ANALYSIS) lenient_config
     (JObj [(''related_issue_number_list'', JList [JInt 101])])
     None ''example-owner'' ''example-repo'' True
   = Some ([MissingIssues {HNum 102}], Inr True)"
proof -
  have l: "py_get (JObj [(''related_issue_number_list'', JList [JInt 101])])
             ''related_issue_number_list'' (JList []) = Inr (JList [JInt 101])"
    by simp
  have n: "[JInt 101] \<noteq> [] \<or> lower (ALLOW_EMPTY_ISSUES cfg) = ''true''" for cfg
    by simp
  have d: "issue_key ` set [JInt 101] \<noteq> {HNum 101, HNum 102}"
    by (simp add: issue_key_def)
  have m: "mismatch_report {issue_key (JInt 101)} {HNum 101, HNum 102}
           = [MissingIssues {HNum 102}]"
    by (simp add: mismatch_report_def issue_key_def)
  have v: "verify_issues (offline_env SAMPLE_ANALYSIS) cfg
             (JObj [(''related_issue_number_list'', JList [JInt 101])])
             None ''example-owner'' ''example-repo'' True
           = Some ([MissingIssues {HNum 102}], Inr (lower (STRICT_ISSUE_MATCH cfg) \<noteq> ''true''))"
    if k: "KEYWORDS cfg = KEYWORDS CONFIG" for cfg
    using issue_set_mismatch [OF l n check_issues_sample(2) [OF k] get_relevant_issues_mock [OF k] d]
    by (simp add: m)
  show ?thesis
    using v [of CONFIG] v [of lenient_config]
    by (simp add: lenient_config_fields mock_issue_facts)
qed

section \<open>The pagination loop\<close>

lemma scan_items_acc:
  "scan_items cfg xs issues
   = (case scan_items cfg xs {} of Inl e \<Rightarrow> Inl e | Inr found \<Rightarrow> Inr (issues \<union> found))"
proof (induction xs arbitrary: issues)
  case Nil
  then show ?case by (simp add: scan_items.simps)
next
  case (Cons x xs)
  have step: "scan_items cfg xs (insert k issues)
        = (case scan_items cfg xs {k} of Inl e \<Rightarrow> Inl e | Inr found \<Rightarrow> Inr (issues \<union> found))" for k
    by (subst Cons.IH [of "insert k issues"], subst Cons.IH [of "{k}"])
       (auto split: sum.splits)
  show ?case
    by (subst (1 2) scan_items.simps)
       (auto simp: err_bind_def step Cons.IH [of issues] split: sum.splits)
qed

lemma scans_result:
  assumes "scans cfg xs"
  obtains found where "scan_items cfg xs issues = Inr (issues \<union> found)"
  using assms scan_items_acc [of cfg xs issues]
  by (auto simp: scans_def split: sum.splits)

lemma loop_stops:
  assumes "last_page cfg (fetch_page E token owner repo mock page)"
  shows "\<exists>found. issues_loop E cfg token owner repo mock page issues lg
           = Some (lg @ fst (fetch_page E token owner repo mock page), Inr found)
         \<and> issues \<subseteq> found"
proof (cases "fetch_page E token owner repo mock page")
  case (Pair lg1 res)
  with assms obtain success data where res: "res = Inr (success, data)"
    by (auto simp: last_page_def split: sum.splits)
  note f = Pair [unfolded fetch_page_def res]
  show ?thesis
  proof (cases "\<not> success \<or> \<not> truthy data")
    case True
    then show ?thesis
      by (subst issues_loop.simps) (auto simp: f Pair)
  next
    case False
    with assms Pair res obtain xs where xs: "data = JList xs" "length xs < 100" "scans cfg xs"
      by (auto simp: last_page_def split: json.splits)
    from xs(3) obtain found where "scan_items cfg xs issues = Inr (issues \<union> found)"
      by (rule scans_result)
    with False xs show ?thesis
      by (subst issues_loop.simps) (auto simp: f Pair err_bind_def short_page_def)
  qed
qed

lemma loop_advances:
  assumes "full_page cfg (fetch_page E token owner repo mock page)"
  shows "\<exists>found. issues_loop E cfg token owner repo mock page issues lg
           = issues_loop E cfg token owner repo mock (page + 1) found
               (lg @ fst (fetch_page E token owner repo mock page))
         \<and> issues \<subseteq> found"
proof (cases "fetch_page E token owner repo mock page")
  case (Pair lg1 res)
  with assms obtain success data where sd: "res = Inr (success, data)"
    by (auto simp: full_page_def split: sum.splits)
  with assms Pair have ok: "success"
      "case data of JList xs \<Rightarrow> 100 \<le> length xs \<and> scans cfg xs | _ \<Rightarrow> False"
    by (auto simp: full_page_def)
  then obtain xs where res: "res = Inr (True, JList xs)" and xs: "100 \<le> length xs" "scans cfg xs"
    using sd by (cases data) auto
  note f = Pair [unfolded fetch_page_def res]
  from xs(2) obtain found where s: "scan_items cfg xs issues = Inr (issues \<union> found)"
    by (rule scans_result)
  from xs(1) have ne: "xs \<noteq> []" by auto
  have "issues_loop E cfg token owner repo mock page issues lg
        = issues_loop E cfg token owner repo mock (page + 1) (issues \<union> found) (lg @ lg1)"
    using xs(1) ne by (subst issues_loop.simps) (simp add: f err_bind_def short_page_def s)
  then show ?thesis by (auto simp: Pair)
qed

lemma issues_loop_returns:
  assumes full: "\<forall>i<k. full_page cfg (fetch_page E token owner repo mock (page + i))"
    and last: "last_page cfg (fetch_page E token owner repo mock (page + k))"
  shows "\<exists>found. issues_loop E cfg token owner repo mock page issues lg
           = Some (lg @ concat (map (\<lambda>i. fst (fetch_page E token owner repo mock (page + i)))
                                  [0..<Suc k]),
                   Inr found)
         \<and> issues \<subseteq> found"
  using full last
proof (induction k arbitrary: page issues lg)
  case 0
  then show ?case using loop_stops [of cfg E token owner repo mock page issues lg] by simp
next
  case (Suc k)
  from Suc.prems(1) have "full_page cfg (fetch_page E token owner repo mock page)"
    by (metis add.right_neutral zero_less_Suc)
  from loop_advances [OF this, of issues lg] obtain mid where
    mid: "issues_loop E cfg token owner repo mock page issues lg
           = issues_loop E cfg token owner repo mock (page + 1) mid
               (lg @ fst (fetch_page E token owner repo mock page))"
      "issues \<subseteq> mid"
    by blast
  have f: "\<forall>i<k. full_page cfg (fetch_page E token owner repo mock (page + 1 + i))"
    using Suc.prems(1) by (auto simp: add.assoc)
  have l: "last_page cfg (fetch_page E token owner repo mock (page + 1 + k))"
    using Suc.prems(2) by (simp add: add.assoc)
  from Suc.IH [OF f l, of mid "lg @ fst (fetch_page E token owner repo mock page)"]
  obtain found where
    found: "issues_loop E cfg token owner repo mock (page + 1) mid
              (lg @ fst (fetch_page E token owner repo mock page))
            = Some ((lg @ fst (fetch_page E token owner repo mock page))
                    @ concat (map (\<lambda>i. fst (fetch_page E token owner repo mock (page + 1 + i)))
                                  [0..<Suc k]),
                    Inr found)"
      "mid \<subseteq> found"
    by blast
  have c: "concat (map (\<lambda>i. fst (fetch_page E token owner repo mock (page + i))) [0..<Suc (Suc k)])
           = fst (fetch_page E token owner repo mock page)
             @ concat (map (\<lambda>i. fst (fetch_page E token owner repo mock (page + 1 + i))) [0..<Suc k])"
  proof -
    have "[0..<Suc (Suc k)] = 0 # map Suc [0..<Suc k]"
      by (subst upt_conv_Cons) (simp_all add: map_Suc_upt del: upt_Suc)
    then show ?thesis by (simp add: comp_def del: upt_Suc)
  qed
  from mid found show ?case
    by (intro exI [of _ found]) (simp add: c del: upt_Suc)
qed

lemma empty_issue_facts:
  "py_in ''pull_request'' (JObj []) = Inr False"
  "py_get (JObj []) ''number'' JNull = Inr JNull"
  "issue_text (JObj []) = Inr '' ''"
  "\<not> has_keyword (KEYWORDS CONFIG) '' ''"
  by code_simp+

lemma scan_empty_issues:
  "scan_items CONFIG (replicate n (JObj [])) issues = Inr issues"
  by (induction n)
     (simp_all add: scan_items.simps empty_issue_facts mock_issue_facts err_bind_def)

lemma hundred_empty_facts:
  "truthy hundred_empty"
  "\<not> short_page hundred_empty"
  "py_iter hundred_empty = Inr (replicate 100 (JObj []))"
  "full_page CONFIG (lg, Inr (True, hundred_empty))"
  by (simp_all add: hundred_empty_def short_page_def full_page_def scans_def scan_empty_issues)

lemma full_pages_fetch:
  "github_api_request full_pages_env endpoint token owner repo False
   = ([], Inr (True, hundred_empty))"
  by (simp add: github_api_request_def full_pages_env_def io_defs)

lemma full_pages_never_return:
  assumes "issues_loop full_pages_env CONFIG token owner repo False page issues lg = Some y"
  shows False
proof -
  have "\<not> (full_pages_env = full_pages_env \<and> CONFIG = CONFIG \<and> \<not> False)"
  proof (rule issues_loop.raw_induct
          [where P = "\<lambda>E cfg token owner repo mock page issues lg y.
                        \<not> (E = full_pages_env \<and> cfg = CONFIG \<and> \<not> mock)",
           OF _ assms], rule notI, elim conjE)
    fix loop E cfg token owner repo mock page issues lg y
    assume IH: "\<And>E cfg token owner repo mock page issues lg y.
                  loop E cfg token owner repo mock page issues lg = Some y \<Longrightarrow>
                  \<not> (E = full_pages_env \<and> cfg = CONFIG \<and> \<not> mock)"
      and body: "(case github_api_request E (page_endpoint page) token owner repo mock of
        (lg1, Inl e) \<Rightarrow> Some (lg @ lg1, Inl e)
      | (lg1, Inr r) \<Rightarrow>
          if \<not> fst r \<or> \<not> truthy (snd r) then Some (lg @ lg1, Inr issues)
          else
            (case err_bind (py_iter (snd r)) (\<lambda>items. scan_items cfg items issues) of
               Inl e \<Rightarrow> Some (lg @ lg1, Inl e)
             | Inr issues' \<Rightarrow>
                 if short_page (snd r) then Some (lg @ lg1, Inr issues')
                 else loop E cfg token owner repo mock (page + 1) issues' (lg @ lg1))) = Some y"
      and E: "E = full_pages_env" and cfg: "cfg = CONFIG" and mock: "\<not> mock"
    from body have "loop E cfg token owner repo mock (page + 1) issues (lg @ []) = Some y"
      unfolding E cfg using mock
      by (simp add: full_pages_fetch hundred_empty_facts scan_empty_issues err_bind_def)
    from IH [OF this] E cfg mock show False by simp
  qed
  then show False by simp
qed

lemma page_urls:
  "api_url ''example-owner'' ''example-repo'' (page_endpoint 2)
   \<noteq> api_url ''example-owner'' ''example-repo'' (page_endpoint 1)"
  "api_url ''example-owner'' ''example-repo'' (page_endpoint 3)
   \<noteq> api_url ''example-owner'' ''example-repo'' (page_endpoint 1)"
  "api_url ''example-owner'' ''example-repo'' (page_endpoint 3)
   \<noteq> api_url ''example-owner'' ''example-repo'' (page_endpoint 2)"
  by code_simp+

lemma dict_page_fetch:
  "github_api_request dict_page_env (page_endpoint 1) token ''example-owner'' ''example-repo'' False
   = ([], Inr (True, JObj [(''pull_request'', JNull)]))"
  "github_api_request dict_page_env (page_endpoint 2) token ''example-owner'' ''example-repo'' False
   = ([], Inr (True, JList [JObj [(''number'', JInt 7), (''title'', JStr ''oom'')]]))"
  by (simp_all add: github_api_request_def dict_page_env_def page_urls io_defs
        del: One_nat_def)

lemma dict_page_scans:
  "scan_items CONFIG [JStr ''pull_request''] {} = Inr {}"
  "scan_items CONFIG [JObj [(''number'', JInt 7), (''title'', JStr ''oom'')]] {} = Inr {HNum 7}"
  by code_simp+

lemma one_full_page_fetch:
  "fetch_page one_full_page_env None ''example-owner'' ''example-repo'' False 1
   = ([], Inr (True, hundred_empty))"
  "fetch_page one_full_page_env None ''example-owner'' ''example-repo'' False 2
   = ([], Inr (False, JNull))"
  by (simp_all add: fetch_page_def github_api_request_def one_full_page_env_def page_urls io_defs
        del: One_nat_def)

text \<open>
  C6, as stated, fails twice. The loop does not terminate for every sequence of pages:
  against a service that answers every request with a list of 100 items it never returns.
  And a page that is not a list does not stop it: the test before \<open>break\<close> is
  \<open>isinstance(data, list) and len(data) < 100\<close>, so after a dict page whose keys all
  contain \<open>pull_request\<close> the loop goes on to page 2 and collects the issue listed
  there.
\<close>

theorem pagination_neither_always_ends_nor_stops_at_non_list:
  "get_relevant_issues full_pages_env CONFIG (Some ''token'') ''example-owner'' ''example-repo'' False
   = None
   \<and> get_relevant_issues dict_page_env CONFIG (Some ''token'') ''example-owner'' ''example-repo'' False
   = Some ([], Inr {HNum 7})"
proof -
  have "get_relevant_issues full_pages_env CONFIG (Some ''token'') ''example-owner'' ''example-repo'' False
        = None"
    using full_pages_never_return
    by (cases "get_relevant_issues full_pages_env CONFIG (Some ''token'') ''example-owner''
                 ''example-repo'' False")
       (auto simp: get_relevant_issues_def)
  moreover have "issues_loop dict_page_env CONFIG (Some ''token'') ''example-owner'' ''example-repo''
                   False 2 {} [] = Some ([], Inr {HNum 7})"
    by (subst issues_loop.simps)
       (simp add: dict_page_fetch dict_page_scans err_bind_def short_page_def)
  then have "issues_loop dict_page_env CONFIG (Some ''token'') ''example-owner'' ''example-repo''
                   False 1 {} [] = Some ([], Inr {HNum 7})"
    by (subst issues_loop.simps)
       (simp add: dict_page_fetch dict_page_scans err_bind_def short_page_def del: One_nat_def)
  ultimately show ?thesis by (simp add: get_relevant_issues_def del: One_nat_def)
qed

text \<open>
  C6, amended. Let the pages from \<open>page\<close> on be \<open>k\<close> lists of 100 items or more, followed
  by a page that is absent (failed fetch, empty payload) or a list of fewer than 100
  items, the items being scanned without an exception. Then the loop returns: it advances
  over the \<open>k\<close> full pages and stops at the next one, having fetched exactly the pages
  \<open>page, ..., page + k\<close> (its log is the log of these fetches), and it returns a set that
  contains what had been collected before.
\<close>

theorem pagination_stops_at_first_short_page:
  assumes full: "\<forall>i<k. full_page cfg (fetch_page E token owner repo mock (page + i))"
    and last: "last_page cfg (fetch_page E token owner repo mock (page + k))"
  shows "\<exists>found. issues_loop E cfg token owner repo mock page issues lg
           = Some (lg @ concat (map (\<lambda>i. fst (fetch_page E token owner repo mock (page + i)))
                                  [0..<Suc k]),
                   Inr found)
         \<and> issues \<subseteq> found"
  using full last by (rule issues_loop_returns)

theorem pagination_stops_at_first_short_page_witness:
  "\<exists>found. get_relevant_issues one_full_page_env CONFIG None ''example-owner'' ''example-repo'' False
            = Some ([], Inr found)"
proof -
  have full: "\<forall>i<1. full_page CONFIG
                (fetch_page one_full_page_env None ''example-owner'' ''example-repo'' False (1 + i))"
    by (simp add: one_full_page_fetch hundred_empty_facts del: One_nat_def)
  have last: "last_page CONFIG
                (fetch_page one_full_page_env None ''example-owner'' ''example-repo'' False (1 + 1))"
    by (simp add: one_full_page_fetch last_page_def del: One_nat_def)
  have u: "[0..<Suc 1] = [0, 1]"
    by code_simp
  have c: "concat (map (\<lambda>i. fst (fetch_page one_full_page_env None ''example-owner''
                                   ''example-repo'' False (1 + i))) [0..<Suc 1]) = []"
    unfolding u by (simp add: one_full_page_fetch del: One_nat_def)
  from pagination_stops_at_first_short_page [OF full last, of "{}" "[]"]
  show ?thesis
    unfolding c get_relevant_issues_def by auto
qed

section \<open>Exceptions at the validators' boundary\<close>









































text \<open>
  A commit detail with \<open>"author": null\<close> (a commit without a linked account) does not reach
  the fallback of lines 186 to 188: \<open>commit_data.get("author", {})\<close> is \<open>None\<close> and
  \<open>.get("login")\<close> raises \<open>AttributeError\<close>.
\<close>

lemma null_author_raises:
  "snd (verify_commit_data null_author_env CONFIG (JObj SAMPLE_ANALYSIS)
          (Some ''token'') ''example-owner'' ''example-repo'' False) = Inl AttributeError"
  by code_simp




end
